theory Spec2Isabelle
  imports Complex_Main "HOL-Library.Sublist" "HOL-Library.Log_Nat" "HOL-Library.Word"
begin

section \<open>Data model of \<^verbatim>\<open>story-upload-modal.tsx\<close>\<close>

text \<open>
  The interface \<^verbatim>\<open>UploadedMedia\<close> and its nested \<^verbatim>\<open>aiAnalysis\<close> object. The union types
  \<^verbatim>\<open>'image' | 'video'\<close> and \<^verbatim>\<open>'analyzing' | 'approved' | 'rejected' | 'error'\<close> are
  datatypes. Optional members (\<^verbatim>\<open>aiAnalysis?\<close>, \<^verbatim>\<open>error?\<close>, \<^verbatim>\<open>moderationReasons?\<close>) are
  options, \<open>None\<close> standing for \<^verbatim>\<open>undefined\<close>. The members \<^verbatim>\<open>id\<close>, \<^verbatim>\<open>file\<close>, \<^verbatim>\<open>url\<close>,
  \<^verbatim>\<open>type\<close>, \<^verbatim>\<open>status\<close>, \<^verbatim>\<open>aiAnalysis\<close> and \<^verbatim>\<open>error\<close> of a record are the fields \<open>mid\<close>,
  \<open>mfile\<close>, \<open>murl\<close>, \<open>mtype\<close>, \<open>mstatus\<close>, \<open>analysis\<close> and \<open>merror\<close>; the member
  \<^verbatim>\<open>flaggedCategories\<close> of an analysis is the field \<open>flaggedCats\<close>.
\<close>

datatype mediaType = TImage | TVideo

datatype mediaStatus = Analyzing | Approved | Rejected | ErrorStatus

subsection \<open>Numbers\<close>

text \<open>
  A JavaScript Number is an IEEE 754 double: a finite value, given here by the rational it
  denotes, an infinity, or \<^verbatim>\<open>NaN\<close>. The two zeros are one value: they print alike and
  multiply alike.
\<close>

datatype number = Finite rat | PosInfinity | NegInfinity | NaN

text \<open>
  The exponent of a positive rational: the integer \<open>e\<close> with
  \<open>2 powi e \<le> x < 2 powi (e + 1)\<close>.
\<close>

definition ilog2 :: "rat \<Rightarrow> int" where
  "ilog2 x = (if x \<ge> 1 then bitlen \<lfloor>x\<rfloor> - 1 else - bitlen (\<lceil>1 / x\<rceil> - 1))"

text \<open>The nearest integer to a rational that is not negative, a tie going to the even one.\<close>

definition roundHalfEven :: "rat \<Rightarrow> int" where
  "roundHalfEven q =
     (let f = \<lfloor>q\<rfloor>;
          d = q - of_int f
      in if d < 1 / 2 then f
         else if d > 1 / 2 then f + 1
         else if even f then f else f + 1)"

text \<open>
  The double nearest to a rational, as the default rounding of IEEE 754 gives it: 53
  significant bits, a tie going to the even significand, no exponent below -1022 (so small
  values lose bits and finally become zero), and an infinity from \<open>2 ^ 1024\<close> on. This is the
  value of a decimal literal and the result of an operation whose exact result is the
  rational.
\<close>

definition toDouble :: "rat \<Rightarrow> number" where
  "toDouble x =
     (if x = 0 then Finite 0
      else
        let e = max (ilog2 \<bar>x\<bar>) (- 1022);
            ulp = 2 powi (e - 52);
            y = of_int (roundHalfEven (\<bar>x\<bar> / ulp)) * ulp
        in if y \<ge> 2 powi 1024 then (if x > 0 then PosInfinity else NegInfinity)
           else Finite (if x > 0 then y else - y))"

text \<open>The operator \<^verbatim>\<open>*\<close> on Numbers.\<close>

fun numTimes :: "number \<Rightarrow> number \<Rightarrow> number" where
  "numTimes NaN y = NaN"
| "numTimes x NaN = NaN"
| "numTimes (Finite a) (Finite b) = toDouble (a * b)"
| "numTimes (Finite a) PosInfinity =
     (if a = 0 then NaN else if a > 0 then PosInfinity else NegInfinity)"
| "numTimes (Finite a) NegInfinity =
     (if a = 0 then NaN else if a > 0 then NegInfinity else PosInfinity)"
| "numTimes PosInfinity (Finite b) =
     (if b = 0 then NaN else if b > 0 then PosInfinity else NegInfinity)"
| "numTimes NegInfinity (Finite b) =
     (if b = 0 then NaN else if b > 0 then NegInfinity else PosInfinity)"
| "numTimes PosInfinity PosInfinity = PosInfinity"
| "numTimes PosInfinity NegInfinity = NegInfinity"
| "numTimes NegInfinity PosInfinity = NegInfinity"
| "numTimes NegInfinity NegInfinity = PosInfinity"

text \<open>
  \<^verbatim>\<open>Math.round\<close>: the nearest integer, a tie going up; an infinity and \<^verbatim>\<open>NaN\<close> are returned
  as they are. (A double of magnitude \<open>2 ^ 52\<close> or more is an integer, so the result is a
  double again.)
\<close>

fun Math_round :: "number \<Rightarrow> number" where
  "Math_round (Finite x) = Finite (of_int \<lfloor>x + 1 / 2\<rfloor>)"
| "Math_round PosInfinity = PosInfinity"
| "Math_round NegInfinity = NegInfinity"
| "Math_round NaN = NaN"

subsection \<open>Records\<close>

text \<open>A JSON value as \<^verbatim>\<open>JSON.parse\<close> returns it.\<close>

datatype json =
    JNull
  | JBool bool
  | JNum number
  | JStr string
  | JArr "json list"
  | JObj "(string \<times> json) list"

record flaggedCategories =
  nudity :: bool
  profanity :: bool
  violence :: bool
  illegalItems :: bool
  contactInfo :: bool
  offTopicContent :: bool

text \<open>
  \<^verbatim>\<open>moderationStatus\<close> is declared \<^verbatim>\<open>'safe' | 'unsafe'\<close>, but line 163 stores
  \<^verbatim>\<open>parsed.moderationStatus\<close> unchecked, so the member holds whatever the verdict carried:
  \<open>None\<close> is \<^verbatim>\<open>undefined\<close>, \<open>Some v\<close> any JSON value.
\<close>

record aiAnalysis =
  contentType :: "string list"
  tags :: "string list"
  moderationStatus :: "json option"
  moderationReasons :: "string list option"
  confidence :: number
  flaggedCats :: flaggedCategories

text \<open>A \<^verbatim>\<open>File\<close>: only its MIME type is read by the component; the name tells files apart.\<close>

record File =
  fname :: string
  ftype :: string

text \<open>An object URL is identified by the number of the \<^verbatim>\<open>URL.createObjectURL\<close> call that made it.\<close>

type_synonym url = nat

record uploadedMedia =
  mid :: string
  mfile :: File
  murl :: url
  mtype :: mediaType
  mstatus :: mediaStatus
  analysis :: "aiAnalysis option"
  merror :: "string option"

section \<open>Component state\<close>

text \<open>
  The three \<^verbatim>\<open>useState\<close> cells of \<^verbatim>\<open>StoryUploadModal\<close>, the \<^verbatim>\<open>open\<close> property, and the
  browser's object-URL store: \<open>created\<close> lists the URLs handed out by
  \<^verbatim>\<open>URL.createObjectURL\<close>, \<open>revoked\<close> logs every call of \<^verbatim>\<open>URL.revokeObjectURL\<close> in order.
  \<^verbatim>\<open>onOpenChange(false)\<close> is taken to clear \<open>isOpen\<close>.
\<close>

record modal =
  media :: "uploadedMedia list"
  isPublishing :: bool
  showSuccessDialog :: bool
  isOpen :: bool
  created :: "url list"
  revoked :: "url list"

definition initial :: modal where
  "initial = \<lparr> media = [], isPublishing = False, showSuccessDialog = False,
               isOpen = True, created = [], revoked = [] \<rparr>"

definition revokeObjectURL :: "url \<Rightarrow> modal \<Rightarrow> modal" where
  "revokeObjectURL u s = s\<lparr> revoked := revoked s @ [u] \<rparr>"

definition createObjectURL :: "modal \<Rightarrow> url \<times> modal" where
  "createObjectURL s = (length (created s), s\<lparr> created := created s @ [length (created s)] \<rparr>)"

text \<open>\<^verbatim>\<open>str.startsWith(p)\<close>.\<close>

definition startsWith :: "string \<Rightarrow> string \<Rightarrow> bool" where
  "startsWith str p = prefix p str"

subsection \<open>\<^verbatim>\<open>handleFileSelect\<close>, up to the \<^verbatim>\<open>await\<close> (lines 185-208)\<close>

text \<open>
  \<open>files\<close> is \<^verbatim>\<open>event.target.files\<close> (\<open>None\<close> for \<^verbatim>\<open>null\<close>); \<open>rnd\<close> is the string
  \<^verbatim>\<open>Math.random().toString(36)\<close>, of which \<^verbatim>\<open>substring(7)\<close> becomes the identifier. The
  result is the new state and, when a record was created, the identifier and file of the
  moderation call that is now in flight. Line 208 resets the file input, which is no part
  of the state, and is left out.
\<close>

definition newMedia :: "File \<Rightarrow> string \<Rightarrow> url \<Rightarrow> uploadedMedia" where
  "newMedia f rnd u =
     \<lparr> mid = drop 7 rnd, mfile = f, murl = u,
       mtype = (if startsWith (ftype f) ''image/'' then TImage else TVideo),
       mstatus = Analyzing, analysis = None, merror = None \<rparr>"

definition handleFileSelect ::
  "File list option \<Rightarrow> string \<Rightarrow> modal \<Rightarrow> modal \<times> (string \<times> File) option" where
  "handleFileSelect files rnd s =
     (case files of
        None \<Rightarrow> (s, None)
      | Some [] \<Rightarrow> (s, None)
      | Some (f # _) \<Rightarrow>
          let isImage = startsWith (ftype f) ''image/'';
              isVideo = startsWith (ftype f) ''video/''
          in if \<not> isImage \<and> \<not> isVideo then (s, None)
             else
               let s1 = fold (\<lambda>m. revokeObjectURL (murl m)) (media s) s;
                   (u, s2) = createObjectURL s1;
                   m = newMedia f rnd u
               in (s2\<lparr> media := [m] \<rparr>, Some (mid m, f)))"

subsection \<open>\<^verbatim>\<open>handleFileSelect\<close>, after the \<^verbatim>\<open>await\<close> (lines 211-232)\<close>

text \<open>
  What \<^verbatim>\<open>catch (err)\<close> receives: an \<^verbatim>\<open>Error\<close> object with its message, or a value that is
  not an \<^verbatim>\<open>Error\<close> (the \<^verbatim>\<open>Event\<close> that \<^verbatim>\<open>video.addEventListener('error', reject)\<close> and
  \<^verbatim>\<open>reader.onerror = reject\<close> pass on), whose \<^verbatim>\<open>.message\<close> is \<^verbatim>\<open>undefined\<close>.
\<close>

datatype jsError = JsError string | NotAnError

fun message :: "jsError \<Rightarrow> string option" where
  "message (JsError msg) = Some msg"
| "message NotAnError = None"

text \<open>The two updater functions passed to \<^verbatim>\<open>setUploadedMedia\<close>, chosen by try/catch.\<close>

definition completeAnalysis ::
  "string \<Rightarrow> jsError + aiAnalysis \<Rightarrow> uploadedMedia list \<Rightarrow> uploadedMedia list" where
  "completeAnalysis i outcome prev =
     (case outcome of
        Inr a \<Rightarrow>
          map (\<lambda>m. if mid m \<noteq> i then m
                    else m\<lparr> mstatus := (if moderationStatus a = Some (JStr ''safe'')
                                         then Approved else Rejected),
                            analysis := Some a \<rparr>) prev
      | Inl err \<Rightarrow>
          map (\<lambda>m. if mid m \<noteq> i then m
                    else m\<lparr> mstatus := ErrorStatus, merror := message err \<rparr>) prev)"

subsection \<open>\<^verbatim>\<open>removeMedia\<close>, \<^verbatim>\<open>handlePublish\<close>, \<^verbatim>\<open>handleSuccessClose\<close> (lines 235-257)\<close>

definition removeMedia :: "string \<Rightarrow> modal \<Rightarrow> modal" where
  "removeMedia i s =
     (let s1 = (case find (\<lambda>m. mid m = i) (media s) of
                  Some m \<Rightarrow> revokeObjectURL (murl m) s
                | None \<Rightarrow> s)
      in s1\<lparr> media := filter (\<lambda>m. mid m \<noteq> i) (media s) \<rparr>)"

text \<open>
  \<^verbatim>\<open>handlePublish\<close> suspends on a two-second timer: \<open>handlePublish\<close> is the part before the
  \<^verbatim>\<open>await\<close>, \<open>handlePublishDone\<close> the part after it, which runs only when the first part
  started publishing.
\<close>

definition handlePublish :: "modal \<Rightarrow> modal" where
  "handlePublish s =
     (let approvedMedia = filter (\<lambda>m. mstatus m = Approved) (media s)
      in if length approvedMedia > 0 then s\<lparr> isPublishing := True \<rparr> else s)"

definition handlePublishDone :: "modal \<Rightarrow> modal" where
  "handlePublishDone s = s\<lparr> isPublishing := False, showSuccessDialog := True \<rparr>"

definition handleSuccessClose :: "modal \<Rightarrow> modal" where
  "handleSuccessClose s = s\<lparr> showSuccessDialog := False, media := [], isOpen := False \<rparr>"

text \<open>The Cancel and back buttons: \<^verbatim>\<open>onOpenChange(false)\<close> and nothing else.\<close>

definition cancel :: "modal \<Rightarrow> modal" where
  "cancel s = s\<lparr> isOpen := False \<rparr>"

subsection \<open>The publish control (lines 259-260, 317)\<close>

definition approvedCount :: "modal \<Rightarrow> nat" where
  "approvedCount s = length (filter (\<lambda>m. mstatus m = Approved) (media s))"

definition analyzingCount :: "modal \<Rightarrow> nat" where
  "analyzingCount s = length (filter (\<lambda>m. mstatus m = Analyzing) (media s))"

definition publishDisabled :: "modal \<Rightarrow> bool" where
  "publishDisabled s = (approvedCount s = 0 \<or> analyzingCount s > 0)"

subsection \<open>Events of the component\<close>

text \<open>
  Every way the state changes: a file selection, the resolution of the moderation call
  started for identifier \<open>i\<close>, a removal, the two halves of publishing, and the two ways
  of closing. The events do not record which calls and timers are pending: in a run a
  call may resolve and the timer may fire at any time, so the runs from \<open>initial\<close>
  include every behaviour of the component.
\<close>

datatype event =
    Select "File list option" string
  | Resolve string "jsError + aiAnalysis"
  | Remove string
  | Publish
  | PublishDone
  | SuccessClose
  | Cancel

fun step :: "event \<Rightarrow> modal \<Rightarrow> modal" where
  "step (Select files rnd) s = fst (handleFileSelect files rnd s)"
| "step (Resolve i outcome) s = s\<lparr> media := completeAnalysis i outcome (media s) \<rparr>"
| "step (Remove i) s = removeMedia i s"
| "step Publish s = handlePublish s"
| "step PublishDone s = handlePublishDone s"
| "step SuccessClose s = handleSuccessClose s"
| "step Cancel s = cancel s"

definition run :: "event list \<Rightarrow> modal \<Rightarrow> modal" where
  "run evs s = fold step evs s"

section \<open>The moderation pipeline: \<^verbatim>\<open>analyzeMediaWithClaude\<close> (lines 69-175)\<close>

subsection \<open>What the function reads from outside\<close>

text \<open>
  The result of reading a property: \<^verbatim>\<open>undefined\<close> (the property is missing), \<^verbatim>\<open>null\<close>, or
  a value. \<open>nullish\<close> is the operator \<^verbatim>\<open>??\<close>.
\<close>

datatype 'a member = Undefined | Null | Value 'a

fun nullish :: "'a member \<Rightarrow> 'a \<Rightarrow> 'a" where
  "nullish (Value v) d = v"
| "nullish Undefined d = d"
| "nullish Null d = d"

text \<open>
  The properties that lines 160-174 read from \<^verbatim>\<open>parsed\<close>. A member that is present and not
  \<^verbatim>\<open>null\<close> is taken to have the type the interface declares for it (a flag missing inside
  \<^verbatim>\<open>flaggedCategories\<close> reads as falsy, that is \<open>False\<close>); \<^verbatim>\<open>moderationStatus\<close> alone is kept
  as an arbitrary JSON value, since the code compares it and never converts it.
\<close>

record verdict =
  v_contentType :: "string member"
  v_tags :: "string list member"
  v_moderationStatus :: "json option"
  v_moderationReasons :: "string list member"
  v_confidence :: "number member"
  v_flaggedCategories :: "flaggedCategories member"

text \<open>
  What \<^verbatim>\<open>JSON.parse\<close> returned: \<^verbatim>\<open>null\<close>, on which every property read throws a
  \<^verbatim>\<open>TypeError\<close>, or another value, seen through its properties (all \<open>Undefined\<close> for a
  number, a string, a boolean or an array).
\<close>

datatype parsed = ParsedNull | ParsedValue verdict

text \<open>
  The two values of \<^verbatim>\<open>import.meta.env\<close>, the request handed to \<^verbatim>\<open>fetch\<close> (the system prompt,
  \<^verbatim>\<open>max_tokens\<close> and the fixed headers are constants and left out), and the response: its
  status, the outcome of \<^verbatim>\<open>response.text()\<close>, and the \<^verbatim>\<open>content\<close> member of the outcome of
  \<^verbatim>\<open>response.json()\<close>, each block given by its \<^verbatim>\<open>text\<close> member.

  The text of a block is a list of UTF-16 code units, as a JavaScript string is: the
  pipeline trims it, and \<^verbatim>\<open>trim\<close> looks at characters outside ASCII. \<open>utf16\<close> gives the code
  units of a text written with the characters below 256.
\<close>

type_synonym codeUnit = "16 word"

definition utf16 :: "string \<Rightarrow> codeUnit list" where
  "utf16 str = map of_char str"

record env =
  VITE_ANTHROPIC_API_KEY :: "string option"
  VITE_ANTHROPIC_MODEL :: "string option"

record request =
  x_api_key :: string
  req_model :: string
  media_type :: string
  req_data :: string
  req_text :: string

record response =
  status :: nat
  text_body :: "jsError + string"
  json_content :: "jsError + codeUnit list member list member"

definition ok :: "response \<Rightarrow> bool" where
  "ok r = (200 \<le> status r \<and> status r \<le> 299)"

text \<open>
  The browser and the network, as functions from what the code passes to what comes back:
  the two encoding helpers of lines 33-67 (wrappers of \<^verbatim>\<open>FileReader\<close>, \<^verbatim>\<open>video\<close> and
  \<^verbatim>\<open>canvas\<close>), \<^verbatim>\<open>fetch\<close>, \<^verbatim>\<open>JSON.parse\<close>, and the message of the engine's \<^verbatim>\<open>TypeError\<close>.
\<close>

record world =
  extractVideoFrame :: "File \<Rightarrow> jsError + string"
  fileToBase64 :: "File \<Rightarrow> jsError + string"
  fetch :: "request \<Rightarrow> jsError + response"
  JSON_parse :: "codeUnit list \<Rightarrow> jsError + parsed"
  typeErrorMessage :: string

text \<open>The steps of the pipeline that touch the file or the network, logged as they run.\<close>

datatype effect = ExtractVideoFrame File | FileToBase64 File | Fetch request

subsection \<open>Strings\<close>

text \<open>
  \<^verbatim>\<open>String(n)\<close> for an integer: decimal digits, with a minus sign below zero. (This is
  what JavaScript prints for the integers up to \<open>2 ^ 53\<close> in magnitude, in particular for an
  HTTP status.)
\<close>

function showNat :: "nat \<Rightarrow> string" where
  "showNat n = (if n < 10 then [''0123456789'' ! n]
                else showNat (n div 10) @ [''0123456789'' ! (n mod 10)])"
  by pat_completeness auto
termination
  by (relation "measure id") auto

declare showNat.simps [simp del]

definition showInt :: "int \<Rightarrow> string" where
  "showInt i = (if i < 0 then ''-'' @ showNat (nat (- i)) else showNat (nat i))"

text \<open>
  \<^verbatim>\<open>raw.replace(/```json|```/g, '')\<close>: scanning from the left, the longer alternative
  first, as the regular expression does.
\<close>

function stripFences :: "codeUnit list \<Rightarrow> codeUnit list" where
  "stripFences s =
     (if s = [] then []
      else if prefix (utf16 ''```json'') s then stripFences (drop 7 s)
      else if prefix (utf16 ''```'') s then stripFences (drop 3 s)
      else hd s # stripFences (tl s))"
  by pat_completeness auto
termination
  by (relation "measure length") (auto simp: prefix_def utf16_def)

declare stripFences.simps [simp del]

text \<open>
  \<^verbatim>\<open>trim()\<close> removes white space and line terminators from both ends: TAB, LF, VT, FF, CR,
  the space, U+00A0, the other space separators of Unicode (U+1680, U+2000 to U+200A,
  U+202F, U+205F, U+3000), the line and paragraph separators U+2028 and U+2029, and
  U+FEFF.
\<close>

definition isWhiteSpace :: "codeUnit \<Rightarrow> bool" where
  "isWhiteSpace c =
     (c \<in> set [0x0009, 0x000A, 0x000B, 0x000C, 0x000D, 0x0020, 0x00A0, 0x1680,
                0x2000, 0x2001, 0x2002, 0x2003, 0x2004, 0x2005, 0x2006, 0x2007,
                0x2008, 0x2009, 0x200A, 0x2028, 0x2029, 0x202F, 0x205F, 0x3000, 0xFEFF])"

definition trim :: "codeUnit list \<Rightarrow> codeUnit list" where
  "trim s = rev (dropWhile isWhiteSpace (rev (dropWhile isWhiteSpace s)))"

subsection \<open>Lines 160-174: the stored analysis\<close>

definition noFlags :: flaggedCategories where
  "noFlags = \<lparr> nudity = False, profanity = False, violence = False,
               illegalItems = False, contactInfo = False, offTopicContent = False \<rparr>"

definition buildAnalysis :: "verdict \<Rightarrow> aiAnalysis" where
  "buildAnalysis p =
     \<lparr> contentType = [nullish (v_contentType p) ''Unknown''],
       tags = nullish (v_tags p) [],
       moderationStatus = v_moderationStatus p,
       moderationReasons = Some (nullish (v_moderationReasons p) []),
       confidence = nullish (v_confidence p) (toDouble (9 / 10)),
       flaggedCats = nullish (v_flaggedCategories p) noFlags \<rparr>"

subsection \<open>Lines 144-158: the response\<close>

definition missingKeyMessage :: string where
  "missingKeyMessage =
     ''Missing VITE_ANTHROPIC_API_KEY. Add it to your .env and restart the dev server.''"

definition notFoundMessage :: "string \<Rightarrow> string \<Rightarrow> string" where
  "notFoundMessage model err =
     ''Moderation API error (404): model '' @ [CHR 0x22] @ model @ [CHR 0x22] @
     '' not found for this API key. '' @
     ''Double-check VITE_ANTHROPIC_MODEL against the /v1/models list. Raw: '' @ err"

definition apiErrorMessage :: "nat \<Rightarrow> string \<Rightarrow> string" where
  "apiErrorMessage st err = ''Moderation API error ('' @ showNat st @ ''): '' @ err"

definition handleResponse :: "world \<Rightarrow> string \<Rightarrow> response \<Rightarrow> jsError + aiAnalysis" where
  "handleResponse w model resp =
     (if \<not> ok resp then
        (case text_body resp of
           Inl e \<Rightarrow> Inl e
         | Inr err \<Rightarrow>
             if status resp = 404 then Inl (JsError (notFoundMessage model err))
             else Inl (JsError (apiErrorMessage (status resp) err)))
      else
        (case json_content resp of
           Inl e \<Rightarrow> Inl e
         | Inr (Value blocks) \<Rightarrow>
             let raw = concat (map (\<lambda>b. nullish b []) blocks);
                 clean = trim (stripFences raw)
             in (case JSON_parse w clean of
                   Inl e \<Rightarrow> Inl e
                 | Inr ParsedNull \<Rightarrow> Inl (JsError (typeErrorMessage w))
                 | Inr (ParsedValue p) \<Rightarrow> Inr (buildAnalysis p))
         | Inr _ \<Rightarrow> Inl (JsError (typeErrorMessage w))))"

subsection \<open>Lines 69-142: encoding, configuration, request\<close>

text \<open>Lines 74-76: \<^verbatim>\<open>VITE_ANTHROPIC_MODEL ?? 'claude-sonnet-4-20250514'\<close>.\<close>

definition configuredModel :: "env \<Rightarrow> string" where
  "configuredModel e =
     (case VITE_ANTHROPIC_MODEL e of
        Some m \<Rightarrow> m
      | None \<Rightarrow> ''claude-sonnet-4-20250514'')"

definition analyzeMediaWithClaude ::
  "env \<Rightarrow> world \<Rightarrow> File \<Rightarrow> effect list \<times> (jsError + aiAnalysis)" where
  "analyzeMediaWithClaude e w f =
     (let isVideo = startsWith (ftype f) ''video/'';
          mediaType = (if isVideo then ''image/jpeg'' else ftype f);
          encoding = (if isVideo then ExtractVideoFrame f else FileToBase64 f)
      in case (if isVideo then extractVideoFrame w f else fileToBase64 w f) of
           Inl err \<Rightarrow> ([encoding], Inl err)
         | Inr base64Data \<Rightarrow>
             let apiKey = VITE_ANTHROPIC_API_KEY e;
                 model = configuredModel e
             in if apiKey = None \<or> apiKey = Some [] then
                  ([encoding], Inl (JsError missingKeyMessage))
                else
                  let userText =
                        (if isVideo
                         then ''This is a frame extracted from a video upload. Please moderate it.''
                         else ''Please moderate this image upload.'');
                      req = \<lparr> x_api_key = the apiKey, req_model = model,
                              media_type = mediaType, req_data = base64Data,
                              req_text = userText \<rparr>
                  in (case fetch w req of
                        Inl err \<Rightarrow> ([encoding, Fetch req], Inl err)
                      | Inr resp \<Rightarrow> ([encoding, Fetch req], handleResponse w model resp)))"

section \<open>The result panel: \<^verbatim>\<open>AIAnalysisPanel\<close> (lines 512-721)\<close>

definition FLAG_LABELS :: "(string \<times> string) list" where
  "FLAG_LABELS =
     [(''nudity'', ''Nudity / Sexual content''),
      (''profanity'', ''Profanity / Offensive text''),
      (''violence'', ''Violence / Gore''),
      (''illegalItems'', ''Drugs / Weapons / Illegal items''),
      (''contactInfo'', ''Contact information''),
      (''offTopicContent'', ''Off-topic content'')]"

text \<open>\<^verbatim>\<open>flags[key]\<close>, read as a condition.\<close>

definition flagOf :: "flaggedCategories \<Rightarrow> string \<Rightarrow> bool" where
  "flagOf flags key =
     (if key = ''nudity'' then nudity flags
      else if key = ''profanity'' then profanity flags
      else if key = ''violence'' then violence flags
      else if key = ''illegalItems'' then illegalItems flags
      else if key = ''contactInfo'' then contactInfo flags
      else if key = ''offTopicContent'' then offTopicContent flags
      else False)"

datatype marker = Flagged | Clear

text \<open>
  What the panel shows, without the styling. A row is a key of \<open>FLAG_LABELS\<close>, its label
  and the marker beside it. The rejected panel has an optional list of reasons and an
  optional box of rows, both followed by the fixed instruction; the approved panel has
  the content type (\<^verbatim>\<open>contentType[0]\<close>), the tags, the number \<^verbatim>\<open>confidencePct\<close> (shown with
  a percent sign after it) and the rows.
\<close>

datatype panel =
    AnalyzingPanel
  | ErrorPanel string
  | RejectedPanel "string list option" "(string \<times> string \<times> marker) list option"
  | ApprovedPanel "string option" "string list" number "(string \<times> string \<times> marker) list"
  | NoPanel

text \<open>
  The text of a Number, where this model gives it: the names of the three values that
  are not finite, and the decimal digits of an integer up to \<open>2 ^ 53\<close> in magnitude. For
  every other Number (a fraction, or a larger integer, which JavaScript prints from its
  shortest digits) the result is \<open>None\<close>. \<open>percentText\<close> is the text of
  \<^verbatim>\<open>{confidencePct}%\<close>.
\<close>

fun numberToString :: "number \<Rightarrow> string option" where
  "numberToString NaN = Some ''NaN''"
| "numberToString PosInfinity = Some ''Infinity''"
| "numberToString NegInfinity = Some ''-Infinity''"
| "numberToString (Finite x) =
     (if x = of_int \<lfloor>x\<rfloor> \<and> \<bar>x\<bar> \<le> 2 ^ 53 then Some (showInt \<lfloor>x\<rfloor>) else None)"

definition percentText :: "number \<Rightarrow> string option" where
  "percentText n = map_option (\<lambda>digits. digits @ ''%'') (numberToString n)"

text \<open>Line 624: \<^verbatim>\<open>Math.round(media.aiAnalysis.confidence * 100)\<close>.\<close>

definition confidencePct :: "aiAnalysis \<Rightarrow> number" where
  "confidencePct a = Math_round (numTimes (confidence a) (Finite 100))"

definition AIAnalysisPanel :: "uploadedMedia \<Rightarrow> panel" where
  "AIAnalysisPanel m =
     (if mstatus m = Analyzing then AnalyzingPanel
      else if mstatus m = ErrorStatus then
        ErrorPanel (case merror m of
                      Some msg \<Rightarrow> msg
                    | None \<Rightarrow> ''An unexpected error occurred. Please try again.'')
      else if mstatus m = Rejected \<and> analysis m \<noteq> None then
        (let a = the (analysis m);
             flags = flaggedCats a;
             triggeredFlags = filter (\<lambda>(key, label). flagOf flags key) FLAG_LABELS
         in RejectedPanel
              (case moderationReasons a of
                 Some rs \<Rightarrow> if length rs > 0 then Some rs else None
               | None \<Rightarrow> None)
              (if length triggeredFlags > 0
               then Some (map (\<lambda>(key, label). (key, label, Flagged)) triggeredFlags)
               else None))
      else if mstatus m = Approved \<and> analysis m \<noteq> None then
        (let a = the (analysis m);
             flags = flaggedCats a
         in ApprovedPanel
              (case contentType a of [] \<Rightarrow> None | c # _ \<Rightarrow> Some c)
              (tags a)
              (confidencePct a)
              (map (\<lambda>(key, label).
                      (key, label, if flagOf flags key then Flagged else Clear)) FLAG_LABELS))
      else NoPanel)"

text \<open>
  Reading a panel: the rows it shows, and the marker shown beside a key (\<open>None\<close> when the
  panel has no row for the key).
\<close>

definition panelRows :: "panel \<Rightarrow> (string \<times> string \<times> marker) list" where
  "panelRows p =
     (case p of
        RejectedPanel reasons (Some rows) \<Rightarrow> rows
      | ApprovedPanel c t pct rows \<Rightarrow> rows
      | _ \<Rightarrow> [])"

definition markerOf :: "panel \<Rightarrow> string \<Rightarrow> marker option" where
  "markerOf p key = map_of (map (\<lambda>(k, label, mk). (k, mk)) (panelRows p)) key"

section \<open>Example inputs\<close>

text \<open>Three files, two random strings, and three verdicts, used to run the definitions.\<close>

definition photo :: File where
  "photo = \<lparr> fname = ''balayage.png'', ftype = ''image/png'' \<rparr>"

definition clip :: File where
  "clip = \<lparr> fname = ''manicure.mp4'', ftype = ''video/mp4'' \<rparr>"

definition leaflet :: File where
  "leaflet = \<lparr> fname = ''prices.pdf'', ftype = ''application/pdf'' \<rparr>"

definition rndA :: string where
  "rndA = ''0.8k3fj2x9qpl''"

definition rndB :: string where
  "rndB = ''0.c71mzd05hw4''"

text \<open>A verdict with nothing but \<^verbatim>\<open>moderationStatus\<close>, a complete one, and an unsafe one.\<close>

definition bareVerdict :: verdict where
  "bareVerdict =
     \<lparr> v_contentType = Undefined, v_tags = Undefined,
       v_moderationStatus = Some (JStr ''safe''), v_moderationReasons = Undefined,
       v_confidence = Undefined, v_flaggedCategories = Undefined \<rparr>"

definition fullVerdict :: verdict where
  "fullVerdict =
     \<lparr> v_contentType = Value ''Hair Colouring'',
       v_tags = Value [''balayage'', ''blonde''],
       v_moderationStatus = Some (JStr ''safe''), v_moderationReasons = Value [],
       v_confidence = Value (toDouble (873 / 1000)),
       v_flaggedCategories = Value noFlags \<rparr>"

definition unsafeVerdict :: verdict where
  "unsafeVerdict =
     \<lparr> v_contentType = Value ''Massage'',
       v_tags = Value [],
       v_moderationStatus = Some (JStr ''unsafe''),
       v_moderationReasons = Value [''Shows a phone number''],
       v_confidence = Value (toDouble (19 / 20)),
       v_flaggedCategories = Value (noFlags\<lparr> nudity := True, contactInfo := True \<rparr>) \<rparr>"

text \<open>
  The complete verdict with \<^verbatim>\<open>"tags": null\<close>, and with \<^verbatim>\<open>"confidence": 0.045\<close>.
\<close>

definition nullTagsVerdict :: verdict where
  "nullTagsVerdict = fullVerdict\<lparr> v_tags := Null \<rparr>"

definition lowVerdict :: verdict where
  "lowVerdict = fullVerdict\<lparr> v_confidence := Value (toDouble (45 / 1000)) \<rparr>"

text \<open>The records that the verdicts leave behind for \<open>photo\<close>.\<close>

definition lowRecord :: uploadedMedia where
  "lowRecord =
     (newMedia photo rndA 0)\<lparr> mstatus := Approved, analysis := Some (buildAnalysis lowVerdict) \<rparr>"

definition approvedRecord :: uploadedMedia where
  "approvedRecord =
     (newMedia photo rndA 0)\<lparr> mstatus := Approved, analysis := Some (buildAnalysis fullVerdict) \<rparr>"

definition rejectedRecord :: uploadedMedia where
  "rejectedRecord =
     (newMedia photo rndA 0)\<lparr> mstatus := Rejected, analysis := Some (buildAnalysis unsafeVerdict) \<rparr>"

text \<open>
  An environment without the credential and one with it; a 404 response; a world in which
  images encode, videos fail to decode and every request is answered with that response.
\<close>

definition noKeyEnv :: env where
  "noKeyEnv = \<lparr> VITE_ANTHROPIC_API_KEY = None, VITE_ANTHROPIC_MODEL = None \<rparr>"

definition keyEnv :: env where
  "keyEnv = \<lparr> VITE_ANTHROPIC_API_KEY = Some ''sk-test'',
              VITE_ANTHROPIC_MODEL = Some ''claude-x'' \<rparr>"

definition notFound :: response where
  "notFound = \<lparr> status = 404, text_body = Inr ''no such model'',
                json_content = Inl NotAnError \<rparr>"

definition offline :: world where
  "offline =
     \<lparr> extractVideoFrame = (\<lambda>f. Inl NotAnError),
       fileToBase64 = (\<lambda>f. Inr ''aGFpcg==''),
       fetch = (\<lambda>req. Inr notFound),
       JSON_parse = (\<lambda>str. Inl (JsError ''Unexpected end of JSON input'')),
       typeErrorMessage = ''Cannot read properties of null'' \<rparr>"

text \<open>
  The verdict \<^verbatim>\<open>{}\<close>; a 200 response whose text blocks spell it inside a code fence, with
  one block lacking its text, U+FEFF in front and U+00A0 and U+2028 behind; a world that
  answers every request with that response and parses \<^verbatim>\<open>{}\<close> and nothing else.
\<close>

definition emptyVerdict :: verdict where
  "emptyVerdict =
     \<lparr> v_contentType = Undefined, v_tags = Undefined,
       v_moderationStatus = None, v_moderationReasons = Undefined,
       v_confidence = Undefined, v_flaggedCategories = Undefined \<rparr>"

definition fenced :: response where
  "fenced =
     \<lparr> status = 200, text_body = Inr [],
       json_content =
         Inr (Value [Value ([0xFEFF] @ utf16 ''```json'' @ [0x000A] @ utf16 ''{''), Null,
                     Value (utf16 ''}'' @ [0x000A] @ utf16 ''```'' @ [0x00A0, 0x2028])]) \<rparr>"

definition online :: world where
  "online =
     \<lparr> extractVideoFrame = (\<lambda>f. Inr ''/9j/4AAQ''),
       fileToBase64 = (\<lambda>f. Inr ''aGFpcg==''),
       fetch = (\<lambda>req. Inr fenced),
       JSON_parse = (\<lambda>str. if str = utf16 ''{}'' then Inr (ParsedValue emptyVerdict)
                           else Inl (JsError ''Unexpected token'')),
       typeErrorMessage = ''Cannot read properties of null'' \<rparr>"

text \<open>
  Two selections that draw the same random string: \<open>photo\<close> is selected and removed
  while its call is in flight, then \<open>clip\<close> is selected.
\<close>

definition collisionRun :: modal where
  "collisionRun =
     run [Select (Some [photo]) rndA, Remove (drop 7 rndA), Select (Some [clip]) rndA] initial"

text \<open>
  A whole session: \<open>photo\<close> is selected, its call resolves with the complete verdict, the
  user publishes, the timer fires, and the success dialog is closed.
\<close>

definition publishedRun :: modal where
  "publishedRun =
     run [Select (Some [photo]) rndA,
          Resolve (drop 7 rndA) (Inr (buildAnalysis fullVerdict)),
          Publish, PublishDone, SuccessClose] initial"

section \<open>Properties\<close>

subsection \<open>Basic facts about the state operations\<close>

lemma media_fold_revoke:
  "media (fold (\<lambda>m. revokeObjectURL (murl m)) ms s) = media s"
  by (induction ms arbitrary: s) (simp_all add: revokeObjectURL_def)

lemma created_fold_revoke:
  "created (fold (\<lambda>m. revokeObjectURL (murl m)) ms s) = created s"
  by (induction ms arbitrary: s) (simp_all add: revokeObjectURL_def)

lemma revoked_fold_revoke:
  "revoked (fold (\<lambda>m. revokeObjectURL (murl m)) ms s) = revoked s @ map murl ms"
  by (induction ms arbitrary: s) (simp_all add: revokeObjectURL_def)

lemma handleFileSelect_accepted:
  assumes "startsWith (ftype f) ''image/'' \<or> startsWith (ftype f) ''video/''"
  shows "media (fst (handleFileSelect (Some (f # fs)) rnd s)) =
           [newMedia f rnd (length (created s))]"
  using assms
  by (auto simp: handleFileSelect_def Let_def createObjectURL_def created_fold_revoke
      split: prod.splits)

lemma handleFileSelect_refused:
  assumes "\<not> startsWith (ftype f) ''image/''" and "\<not> startsWith (ftype f) ''video/''"
  shows "handleFileSelect (Some (f # fs)) rnd s = (s, None)"
  using assms by (simp add: handleFileSelect_def)

lemma handleFileSelect_length:
  "length (media s) \<le> 1 \<Longrightarrow> length (media (fst (handleFileSelect files rnd s))) \<le> 1"
  by (auto simp: handleFileSelect_def Let_def createObjectURL_def
      split: option.splits list.splits prod.splits)

lemma length_completeAnalysis [simp]:
  "length (completeAnalysis i outcome prev) = length prev"
  by (simp add: completeAnalysis_def split: sum.splits)

lemma completeAnalysis_other:
  "k < length prev \<Longrightarrow> mid (prev ! k) \<noteq> i \<Longrightarrow>
     completeAnalysis i outcome prev ! k = prev ! k"
  by (simp add: completeAnalysis_def split: sum.splits)

lemma completeAnalysis_mid:
  "map mid (completeAnalysis i outcome prev) = map mid prev"
  by (simp add: completeAnalysis_def split: sum.splits)

lemma completeAnalysis_identity:
  "map (\<lambda>m. (mid m, mfile m, murl m, mtype m)) (completeAnalysis i outcome prev) =
   map (\<lambda>m. (mid m, mfile m, murl m, mtype m)) prev"
  by (simp add: completeAnalysis_def split: sum.splits)

lemma completeAnalysis_mid_set:
  "mid ` set (completeAnalysis i outcome prev) = mid ` set prev"
proof -
  have "set (map mid (completeAnalysis i outcome prev)) = set (map mid prev)"
    by (simp only: completeAnalysis_mid)
  then show ?thesis by (simp only: set_map)
qed

lemma completeAnalysis_absent:
  "i \<notin> mid ` set prev \<Longrightarrow> completeAnalysis i outcome prev = prev"
  by (cases outcome) (auto simp: completeAnalysis_def intro!: map_idI)

text \<open>
  The two paths that do release: a selection revokes the URL of every record it replaces,
  and a removal revokes the URL of the record it removes.
\<close>

lemma select_releases_previous:
  assumes "startsWith (ftype f) ''image/'' \<or> startsWith (ftype f) ''video/''"
  shows "revoked (fst (handleFileSelect (Some (f # fs)) rnd s)) = revoked s @ map murl (media s)"
  using assms
  by (auto simp: handleFileSelect_def Let_def createObjectURL_def revoked_fold_revoke
      split: prod.splits)

lemma remove_releases:
  "media s = [m] \<Longrightarrow> revoked (removeMedia (mid m) s) = revoked s @ [murl m] \<and>
     media (removeMedia (mid m) s) = []"
  by (simp add: removeMedia_def revokeObjectURL_def)

subsection \<open>The publish control\<close>

text \<open>
  C5. In every state, the publish control is enabled if and only if at least one Upload
  Record has status approved and no Upload Record has status analyzing.
\<close>

theorem publish_enabled_iff:
  "(\<not> publishDisabled s) \<longleftrightarrow>
     ((\<exists>m \<in> set (media s). mstatus m = Approved) \<and>
      (\<forall>m \<in> set (media s). mstatus m \<noteq> Analyzing))"
  by (auto simp: publishDisabled_def approvedCount_def analyzingCount_def filter_empty_conv)

theorem publish_enabled_iff_witness:
  "\<not> publishDisabled (initial\<lparr> media := [approvedRecord] \<rparr>) \<and>
   publishDisabled (initial\<lparr> media := [newMedia photo rndA 0] \<rparr>)"
proof -
  have a: "(\<exists>m \<in> set (media (initial\<lparr> media := [approvedRecord] \<rparr>)). mstatus m = Approved) \<and>
     (\<forall>m \<in> set (media (initial\<lparr> media := [approvedRecord] \<rparr>)). mstatus m \<noteq> Analyzing)"
    by (simp add: approvedRecord_def)
  have b: "\<not> (\<forall>m \<in> set (media (initial\<lparr> media := [newMedia photo rndA 0] \<rparr>)).
              mstatus m \<noteq> Analyzing)"
    by (simp add: newMedia_def)
  from a b show ?thesis
    using publish_enabled_iff [of "initial\<lparr> media := [approvedRecord] \<rparr>"]
      publish_enabled_iff [of "initial\<lparr> media := [newMedia photo rndA 0] \<rparr>"]
    by blast
qed

subsection \<open>One record at a time\<close>

lemma step_length:
  assumes "length (media s) \<le> 1"
  shows "length (media (step ev s)) \<le> 1"
proof (cases ev)
  case (Select files rnd)
  then show ?thesis using handleFileSelect_length [OF assms] by simp
next
  case (Remove i)
  have "length (filter (\<lambda>m. mid m \<noteq> i) (media s)) \<le> 1"
    using assms by (rule le_trans [OF length_filter_le])
  with Remove show ?thesis
    by (simp add: removeMedia_def Let_def revokeObjectURL_def split: option.splits)
qed (use assms in \<open>simp_all add: handlePublish_def handlePublishDone_def
      handleSuccessClose_def cancel_def\<close>)

lemma run_length:
  "length (media s) \<le> 1 \<Longrightarrow> length (media (run evs s)) \<le> 1"
  unfolding run_def
proof (induction evs arbitrary: s)
  case Nil
  then show ?case by simp
next
  case (Cons ev evs)
  from Cons.prems have "length (media (step ev s)) \<le> 1" by (rule step_length)
  then have "length (media (fold step evs (step ev s))) \<le> 1" by (rule Cons.IH)
  then show ?case by simp
qed

text \<open>
  C6. Every state reached from the initial one holds at most one Upload Record. Selecting
  a file whose MIME type starts with \<^verbatim>\<open>image/\<close> or \<^verbatim>\<open>video/\<close> leaves exactly one record, the
  new one for that file, with status analyzing, whatever was there before; selecting a
  file of any other MIME type leaves the state as it was.
\<close>

theorem at_most_one_record:
  "length (media (run evs initial)) \<le> 1 \<and>
   (startsWith (ftype f) ''image/'' \<or> startsWith (ftype f) ''video/'' \<longrightarrow>
      media (fst (handleFileSelect (Some (f # fs)) rnd s)) =
        [newMedia f rnd (length (created s))] \<and>
      mstatus (newMedia f rnd (length (created s))) = Analyzing \<and>
      mfile (newMedia f rnd (length (created s))) = f) \<and>
   (\<not> startsWith (ftype f) ''image/'' \<and> \<not> startsWith (ftype f) ''video/'' \<longrightarrow>
      fst (handleFileSelect (Some (f # fs)) rnd s) = s)"
proof -
  have "length (media (run evs initial)) \<le> 1"
    by (rule run_length) (simp add: initial_def)
  then show ?thesis
    by (simp add: handleFileSelect_accepted handleFileSelect_refused newMedia_def)
qed

theorem at_most_one_record_witness:
  "startsWith (ftype clip) ''video/'' \<and>
   media (fst (handleFileSelect (Some [clip]) rndB (initial\<lparr> media := [approvedRecord],
                                                            created := [0] \<rparr>))) =
     [newMedia clip rndB 1] \<and>
   \<not> startsWith (ftype leaflet) ''image/'' \<and> \<not> startsWith (ftype leaflet) ''video/'' \<and>
   fst (handleFileSelect (Some [leaflet]) rndB (initial\<lparr> media := [approvedRecord] \<rparr>)) =
     initial\<lparr> media := [approvedRecord] \<rparr> \<and>
   length (media (run [Select (Some [photo]) rndA, Select (Some [clip]) rndB] initial)) \<le> 1"
proof -
  have v: "startsWith (ftype clip) ''video/''"
    by (simp add: clip_def startsWith_def)
  have n: "\<not> startsWith (ftype leaflet) ''image/'' \<and> \<not> startsWith (ftype leaflet) ''video/''"
    by (simp add: leaflet_def startsWith_def)
  have c: "length (created (initial\<lparr> media := [approvedRecord], created := [0] \<rparr>)) = 1"
    by simp
  show ?thesis
    using v n c
      at_most_one_record [of "[Select (Some [photo]) rndA, Select (Some [clip]) rndB]"
        clip "[]" rndB "initial\<lparr> media := [approvedRecord], created := [0] \<rparr>"]
      at_most_one_record [of "[]" leaflet "[]" rndB "initial\<lparr> media := [approvedRecord] \<rparr>"]
    by simp
qed

subsection \<open>Removal while the call is in flight\<close>

lemma step_keeps_absent:
  assumes "i \<notin> mid ` set (media s)"
    and "\<And>files rnd. ev = Select files rnd \<Longrightarrow> drop 7 rnd \<noteq> i"
  shows "i \<notin> mid ` set (media (step ev s))"
proof (cases ev)
  case (Select files rnd)
  with assms have "drop 7 rnd \<noteq> i" by simp
  with assms(1) Select show ?thesis
    by (auto simp: handleFileSelect_def Let_def createObjectURL_def newMedia_def
        split: option.splits list.splits prod.splits)
next
  case (Resolve j outcome)
  with assms(1) show ?thesis by (simp add: completeAnalysis_mid_set)
next
  case (Remove j)
  with assms(1) show ?thesis
    by (auto simp: removeMedia_def Let_def revokeObjectURL_def split: option.splits)
qed (use assms(1) in \<open>simp_all add: handlePublish_def handlePublishDone_def
      handleSuccessClose_def cancel_def\<close>)

lemma run_keeps_absent:
  assumes "i \<notin> mid ` set (media s)"
    and "\<forall>files rnd. Select files rnd \<in> set evs \<longrightarrow> drop 7 rnd \<noteq> i"
  shows "i \<notin> mid ` set (media (run evs s))"
  using assms unfolding run_def
proof (induction evs arbitrary: s)
  case Nil
  then show ?case by simp
next
  case (Cons ev evs)
  have "i \<notin> mid ` set (media (step ev s))"
    using Cons.prems by (intro step_keeps_absent) auto
  moreover have "\<forall>files rnd. Select files rnd \<in> set evs \<longrightarrow> drop 7 rnd \<noteq> i"
    using Cons.prems(2) by auto
  ultimately have "i \<notin> mid ` set (media (fold step evs (step ev s)))"
    by (rule Cons.IH)
  then show ?case by simp
qed

lemma removeMedia_absent: "i \<notin> mid ` set (media (removeMedia i s))"
  by (auto simp: removeMedia_def Let_def)

text \<open>
  C7, as the code has it. The resolution of the call started for identifier \<open>i\<close>, with a
  result or with an error, adds no record: the records keep their identifiers, files, URLs and types, in
  order; and it changes no record whose identifier differs from \<open>i\<close>. When the record
  \<open>i\<close> has been removed, then after any further events in which no selection draws the
  identifier \<open>i\<close> again, no record \<open>i\<close> exists and the resolution leaves the whole state
  as it is: the removed record is not reintroduced.
\<close>

theorem removed_record_not_reintroduced:
  "map (\<lambda>m. (mid m, mfile m, murl m, mtype m)) (completeAnalysis i outcome prev) =
     map (\<lambda>m. (mid m, mfile m, murl m, mtype m)) prev \<and>
   (\<forall>k < length prev. mid (prev ! k) \<noteq> i \<longrightarrow>
      completeAnalysis i outcome prev ! k = prev ! k) \<and>
   ((\<forall>files rnd. Select files rnd \<in> set evs \<longrightarrow> drop 7 rnd \<noteq> i) \<longrightarrow>
      i \<notin> mid ` set (media (run evs (removeMedia i s))) \<and>
      step (Resolve i outcome) (run evs (removeMedia i s)) = run evs (removeMedia i s))"
proof (intro conjI allI impI)
  show "map (\<lambda>m. (mid m, mfile m, murl m, mtype m)) (completeAnalysis i outcome prev) =
      map (\<lambda>m. (mid m, mfile m, murl m, mtype m)) prev"
    by (rule completeAnalysis_identity)
next
  fix k
  assume "k < length prev" and "mid (prev ! k) \<noteq> i"
  then show "completeAnalysis i outcome prev ! k = prev ! k"
    by (rule completeAnalysis_other)
next
  assume fresh: "\<forall>files rnd. Select files rnd \<in> set evs \<longrightarrow> drop 7 rnd \<noteq> i"
  show absent: "i \<notin> mid ` set (media (run evs (removeMedia i s)))"
    using removeMedia_absent fresh by (rule run_keeps_absent)
  show "step (Resolve i outcome) (run evs (removeMedia i s)) = run evs (removeMedia i s)"
    using absent by (simp add: completeAnalysis_absent)
qed

theorem removed_record_not_reintroduced_witness:
  "step (Resolve (drop 7 rndA) (Inr (buildAnalysis fullVerdict)))
     (run [Select (Some [clip]) rndB]
        (removeMedia (drop 7 rndA) (initial\<lparr> media := [newMedia photo rndA 0],
                                              created := [0] \<rparr>))) =
   run [Select (Some [clip]) rndB]
     (removeMedia (drop 7 rndA) (initial\<lparr> media := [newMedia photo rndA 0],
                                           created := [0] \<rparr>)) \<and>
   completeAnalysis (drop 7 rndA) (Inl NotAnError) [newMedia clip rndB 1] ! 0 =
     [newMedia clip rndB 1] ! 0"
proof -
  have fresh: "\<forall>files rnd. Select files rnd \<in> set [Select (Some [clip]) rndB] \<longrightarrow>
                 drop 7 rnd \<noteq> drop 7 rndA"
    by (simp add: rndA_def rndB_def)
  have other: "0 < length [newMedia clip rndB 1] \<and>
               mid ([newMedia clip rndB 1] ! 0) \<noteq> drop 7 rndA"
    by (simp add: newMedia_def rndA_def rndB_def)
  show ?thesis
    using fresh other
      removed_record_not_reintroduced [of "drop 7 rndA" "Inr (buildAnalysis fullVerdict)"
        "[]" "[Select (Some [clip]) rndB]"
        "initial\<lparr> media := [newMedia photo rndA 0], created := [0] \<rparr>"]
      removed_record_not_reintroduced [of "drop 7 rndA" "Inl NotAnError"
        "[newMedia clip rndB 1]" "[]" initial]
    by blast
qed

text \<open>
  C7, as it is stated, fails when a later selection draws the identifier of the removed
  record again: line 199 draws identifiers at random and lines 215 and 225 compare
  nothing else. In \<open>collisionRun\<close> the record of \<open>photo\<close> is gone and the only record is
  the one of \<open>clip\<close>, still analyzing; the verdict that then arrives for \<open>photo\<close> approves
  it.
\<close>

theorem stale_verdict_reaches_other_record:
  "media collisionRun = [newMedia clip rndA 1] \<and>
   mfile (newMedia clip rndA 1) \<noteq> photo \<and>
   mstatus (newMedia clip rndA 1) = Analyzing \<and>
   media (step (Resolve (drop 7 rndA) (Inr (buildAnalysis fullVerdict))) collisionRun) =
     [(newMedia clip rndA 1)\<lparr> mstatus := Approved,
                                analysis := Some (buildAnalysis fullVerdict) \<rparr>] \<and>
   step (Resolve (drop 7 rndA) (Inr (buildAnalysis fullVerdict))) collisionRun \<noteq> collisionRun"
proof -
  have m: "media collisionRun = [newMedia clip rndA 1]"
    by (simp add: collisionRun_def run_def handleFileSelect_def photo_def clip_def
        startsWith_def initial_def createObjectURL_def removeMedia_def revokeObjectURL_def
        newMedia_def)
  have f: "mfile (newMedia clip rndA 1) \<noteq> photo"
    by (simp add: newMedia_def clip_def photo_def)
  have a: "mstatus (newMedia clip rndA 1) = Analyzing"
    by (simp add: newMedia_def)
  have r: "media (step (Resolve (drop 7 rndA) (Inr (buildAnalysis fullVerdict))) collisionRun) =
     [(newMedia clip rndA 1)\<lparr> mstatus := Approved,
                                analysis := Some (buildAnalysis fullVerdict) \<rparr>]"
    by (simp add: m completeAnalysis_def) (simp add: newMedia_def buildAnalysis_def fullVerdict_def)
  have "media (step (Resolve (drop 7 rndA) (Inr (buildAnalysis fullVerdict))) collisionRun) \<noteq>
      media collisionRun"
    by (simp only: r m) (simp add: newMedia_def)
  then have "step (Resolve (drop 7 rndA) (Inr (buildAnalysis fullVerdict))) collisionRun \<noteq>
      collisionRun"
    by metis
  with m f a r show ?thesis by blast
qed

subsection \<open>The stored analysis\<close>

lemma handleResponse_parsed:
  assumes "ok resp" and "json_content resp = Inr (Value blocks)"
    and "JSON_parse w (trim (stripFences (concat (map (\<lambda>b. nullish b []) blocks)))) =
           Inr (ParsedValue p)"
  shows "handleResponse w model resp = Inr (buildAnalysis p)"
  using assms by (simp add: handleResponse_def)

lemma completeAnalysis_stores:
  assumes "k < length prev" and "mid (prev ! k) = i"
  shows "analysis (completeAnalysis i (Inr a) prev ! k) = Some a"
  using assms by (simp add: completeAnalysis_def)

text \<open>
  C4, as the code has it. When the text of a successful response parses to a verdict, the
  pipeline returns the analysis built from it, and the record of the call stores that
  analysis. The analysis is built member by member. A member that is missing or is
  \<^verbatim>\<open>null\<close> gets its default: the empty list for \<^verbatim>\<open>tags\<close> and for \<^verbatim>\<open>moderationReasons\<close>, the
  Number 0.9 for \<^verbatim>\<open>confidence\<close>, six false flags for \<^verbatim>\<open>flaggedCategories\<close>, the text
  \<^verbatim>\<open>Unknown\<close> for \<^verbatim>\<open>contentType\<close>. A member that is present with a value other than
  \<^verbatim>\<open>null\<close> is stored as it is (\<^verbatim>\<open>contentType\<close> as the one element of a list), and so is
  \<^verbatim>\<open>moderationStatus\<close>, whatever it is.
\<close>

theorem omitted_fields_get_defaults:
  "(ok resp \<and> json_content resp = Inr (Value blocks) \<and>
    JSON_parse w (trim (stripFences (concat (map (\<lambda>b. nullish b []) blocks)))) =
      Inr (ParsedValue p) \<longrightarrow>
      handleResponse w model resp = Inr (buildAnalysis p)) \<and>
   (\<forall>k < length prev. mid (prev ! k) = i \<longrightarrow>
      analysis (completeAnalysis i (Inr (buildAnalysis p)) prev ! k) = Some (buildAnalysis p)) \<and>
   (v_tags p = Undefined \<or> v_tags p = Null \<longrightarrow> tags (buildAnalysis p) = []) \<and>
   (v_moderationReasons p = Undefined \<or> v_moderationReasons p = Null \<longrightarrow>
      moderationReasons (buildAnalysis p) = Some []) \<and>
   (v_confidence p = Undefined \<or> v_confidence p = Null \<longrightarrow>
      confidence (buildAnalysis p) = toDouble (9 / 10)) \<and>
   (v_flaggedCategories p = Undefined \<or> v_flaggedCategories p = Null \<longrightarrow>
      flaggedCats (buildAnalysis p) =
        \<lparr> nudity = False, profanity = False, violence = False,
          illegalItems = False, contactInfo = False, offTopicContent = False \<rparr>) \<and>
   (v_contentType p = Undefined \<or> v_contentType p = Null \<longrightarrow>
      contentType (buildAnalysis p) = [''Unknown'']) \<and>
   (\<forall>v. v_tags p = Value v \<longrightarrow> tags (buildAnalysis p) = v) \<and>
   (\<forall>v. v_moderationReasons p = Value v \<longrightarrow> moderationReasons (buildAnalysis p) = Some v) \<and>
   (\<forall>v. v_confidence p = Value v \<longrightarrow> confidence (buildAnalysis p) = v) \<and>
   (\<forall>v. v_flaggedCategories p = Value v \<longrightarrow> flaggedCats (buildAnalysis p) = v) \<and>
   (\<forall>v. v_contentType p = Value v \<longrightarrow> contentType (buildAnalysis p) = [v]) \<and>
   moderationStatus (buildAnalysis p) = v_moderationStatus p"
proof -
  have "ok resp \<and> json_content resp = Inr (Value blocks) \<and>
    JSON_parse w (trim (stripFences (concat (map (\<lambda>b. nullish b []) blocks)))) =
      Inr (ParsedValue p) \<longrightarrow>
      handleResponse w model resp = Inr (buildAnalysis p)"
    by (simp add: handleResponse_parsed)
  moreover have "\<forall>k < length prev. mid (prev ! k) = i \<longrightarrow>
      analysis (completeAnalysis i (Inr (buildAnalysis p)) prev ! k) = Some (buildAnalysis p)"
    by (simp add: completeAnalysis_stores)
  moreover have
    "(v_tags p = Undefined \<or> v_tags p = Null \<longrightarrow> tags (buildAnalysis p) = []) \<and>
     (v_moderationReasons p = Undefined \<or> v_moderationReasons p = Null \<longrightarrow>
        moderationReasons (buildAnalysis p) = Some []) \<and>
     (v_confidence p = Undefined \<or> v_confidence p = Null \<longrightarrow>
        confidence (buildAnalysis p) = toDouble (9 / 10)) \<and>
     (v_flaggedCategories p = Undefined \<or> v_flaggedCategories p = Null \<longrightarrow>
        flaggedCats (buildAnalysis p) =
          \<lparr> nudity = False, profanity = False, violence = False,
            illegalItems = False, contactInfo = False, offTopicContent = False \<rparr>) \<and>
     (v_contentType p = Undefined \<or> v_contentType p = Null \<longrightarrow>
        contentType (buildAnalysis p) = [''Unknown''])"
    by (auto simp: buildAnalysis_def noFlags_def)
  moreover have
    "(\<forall>v. v_tags p = Value v \<longrightarrow> tags (buildAnalysis p) = v) \<and>
     (\<forall>v. v_moderationReasons p = Value v \<longrightarrow> moderationReasons (buildAnalysis p) = Some v) \<and>
     (\<forall>v. v_confidence p = Value v \<longrightarrow> confidence (buildAnalysis p) = v) \<and>
     (\<forall>v. v_flaggedCategories p = Value v \<longrightarrow> flaggedCats (buildAnalysis p) = v) \<and>
     (\<forall>v. v_contentType p = Value v \<longrightarrow> contentType (buildAnalysis p) = [v]) \<and>
     moderationStatus (buildAnalysis p) = v_moderationStatus p"
    by (simp add: buildAnalysis_def)
  ultimately show ?thesis by blast
qed

lemma double_0_9: "toDouble (9 / 10) = Finite (8106479329266893 / 2 ^ 53)"
  by code_simp

lemma double_0_873: "toDouble (873 / 1000) = Finite (3931642474694443 / 2 ^ 52)"
  by code_simp

lemma fenced_clean:
  "trim (stripFences (concat (map (\<lambda>b. nullish b [])
     [Value ([0xFEFF] @ utf16 ''```json'' @ [0x000A] @ utf16 ''{''), Null,
      Value (utf16 ''}'' @ [0x000A] @ utf16 ''```'' @ [0x00A0, 0x2028])]))) =
   utf16 ''{}''"
  by (simp add: stripFences.simps trim_def isWhiteSpace_def utf16_def)

theorem omitted_fields_get_defaults_witness:
  "handleResponse online ''claude-x'' fenced = Inr (buildAnalysis emptyVerdict) \<and>
   analysis (completeAnalysis (drop 7 rndA) (Inr (buildAnalysis emptyVerdict))
               [newMedia photo rndA 0] ! 0) = Some (buildAnalysis emptyVerdict) \<and>
   buildAnalysis emptyVerdict =
     \<lparr> contentType = [''Unknown''], tags = [], moderationStatus = None,
       moderationReasons = Some [], confidence = Finite (8106479329266893 / 2 ^ 53),
       flaggedCats = noFlags \<rparr> \<and>
   tags (buildAnalysis nullTagsVerdict) = [] \<and>
   tags (buildAnalysis fullVerdict) = [''balayage'', ''blonde''] \<and>
   confidence (buildAnalysis fullVerdict) = Finite (3931642474694443 / 2 ^ 52) \<and>
   contentType (buildAnalysis fullVerdict) = [''Hair Colouring'']"
proof -
  have r: "ok fenced \<and>
      json_content fenced =
        Inr (Value [Value ([0xFEFF] @ utf16 ''```json'' @ [0x000A] @ utf16 ''{''), Null,
                    Value (utf16 ''}'' @ [0x000A] @ utf16 ''```'' @ [0x00A0, 0x2028])])"
    by (simp add: ok_def fenced_def)
  have j: "JSON_parse online (trim (stripFences (concat (map (\<lambda>b. nullish b [])
      [Value ([0xFEFF] @ utf16 ''```json'' @ [0x000A] @ utf16 ''{''), Null,
       Value (utf16 ''}'' @ [0x000A] @ utf16 ''```'' @ [0x00A0, 0x2028])])))) =
      Inr (ParsedValue emptyVerdict)"
    by (simp only: fenced_clean) (simp add: online_def)
  have k: "0 < length [newMedia photo rndA 0] \<and> mid ([newMedia photo rndA 0] ! 0) = drop 7 rndA"
    by (simp add: newMedia_def)
  have u: "v_tags emptyVerdict = Undefined \<and> v_moderationReasons emptyVerdict = Undefined \<and>
      v_confidence emptyVerdict = Undefined \<and> v_flaggedCategories emptyVerdict = Undefined \<and>
      v_contentType emptyVerdict = Undefined \<and> v_moderationStatus emptyVerdict = None"
    by (simp add: emptyVerdict_def)
  have n: "v_tags nullTagsVerdict = Null"
    by (simp add: nullTagsVerdict_def)
  have p: "v_tags fullVerdict = Value [''balayage'', ''blonde''] \<and>
      v_confidence fullVerdict = Value (toDouble (873 / 1000)) \<and>
      v_contentType fullVerdict = Value ''Hair Colouring''"
    by (simp add: fullVerdict_def)
  have e: "handleResponse online ''claude-x'' fenced = Inr (buildAnalysis emptyVerdict) \<and>
      analysis (completeAnalysis (drop 7 rndA) (Inr (buildAnalysis emptyVerdict))
                  [newMedia photo rndA 0] ! 0) = Some (buildAnalysis emptyVerdict) \<and>
      tags (buildAnalysis emptyVerdict) = [] \<and>
      moderationReasons (buildAnalysis emptyVerdict) = Some [] \<and>
      confidence (buildAnalysis emptyVerdict) = toDouble (9 / 10) \<and>
      flaggedCats (buildAnalysis emptyVerdict) = noFlags \<and>
      contentType (buildAnalysis emptyVerdict) = [''Unknown''] \<and>
      moderationStatus (buildAnalysis emptyVerdict) = None"
    using r j k u
      omitted_fields_get_defaults [of fenced
        "[Value ([0xFEFF] @ utf16 ''```json'' @ [0x000A] @ utf16 ''{''), Null,
          Value (utf16 ''}'' @ [0x000A] @ utf16 ''```'' @ [0x00A0, 0x2028])]"
        online emptyVerdict "''claude-x''" "[newMedia photo rndA 0]" "drop 7 rndA"]
    by (simp add: noFlags_def)
  have t: "tags (buildAnalysis nullTagsVerdict) = []"
    using n omitted_fields_get_defaults [of fenced "[]" online nullTagsVerdict "''claude-x''"
        "[]" "[]"]
    by blast
  have f: "tags (buildAnalysis fullVerdict) = [''balayage'', ''blonde''] \<and>
      confidence (buildAnalysis fullVerdict) = toDouble (873 / 1000) \<and>
      contentType (buildAnalysis fullVerdict) = [''Hair Colouring'']"
    using p omitted_fields_get_defaults [of fenced "[]" online fullVerdict "''claude-x''"
        "[]" "[]"]
    by blast
  have "buildAnalysis emptyVerdict =
     \<lparr> contentType = [''Unknown''], tags = [], moderationStatus = None,
       moderationReasons = Some [], confidence = toDouble (9 / 10),
       flaggedCats = noFlags \<rparr>"
    using e by simp
  with e t f show ?thesis
    by (simp only: double_0_9 double_0_873)
qed

text \<open>
  C4, as it is stated, fails on its last part: in the complete verdict with
  \<^verbatim>\<open>"tags": null\<close> the member \<^verbatim>\<open>tags\<close> is present, and the stored analysis has the empty list
  in its place.
\<close>

theorem null_member_is_replaced:
  "v_tags nullTagsVerdict = Null \<and>
   v_tags nullTagsVerdict \<noteq> Undefined \<and>
   tags (buildAnalysis nullTagsVerdict) = [] \<and>
   Value (tags (buildAnalysis nullTagsVerdict)) \<noteq> v_tags nullTagsVerdict"
  by (simp add: nullTagsVerdict_def buildAnalysis_def)

subsection \<open>Approved or rejected\<close>

text \<open>
  A response whose text parses to \<^verbatim>\<open>null\<close> is no verdict: reading \<^verbatim>\<open>parsed.contentType\<close>
  throws, and the pipeline fails with the engine's \<^verbatim>\<open>TypeError\<close>.
\<close>

lemma parsed_null_is_error:
  assumes "ok resp" and "json_content resp = Inr (Value blocks)"
    and "JSON_parse w (trim (stripFences (concat (map (\<lambda>b. nullish b []) blocks)))) =
           Inr ParsedNull"
  shows "handleResponse w model resp = Inl (JsError (typeErrorMessage w))"
  using assms by (simp add: handleResponse_def)

text \<open>
  C8. When the call for identifier \<open>i\<close> resolves with the analysis built from a parsed
  verdict, every record with that identifier becomes approved exactly when the verdict's
  \<^verbatim>\<open>moderationStatus\<close> is the string \<^verbatim>\<open>safe\<close>; with any other value of that member, or
  without it, the record becomes rejected.
\<close>

theorem approved_iff_safe:
  "\<forall>k < length prev. mid (prev ! k) = i \<longrightarrow>
     (mstatus (completeAnalysis i (Inr (buildAnalysis p)) prev ! k) = Approved
        \<longleftrightarrow> v_moderationStatus p = Some (JStr ''safe'')) \<and>
     (v_moderationStatus p \<noteq> Some (JStr ''safe'') \<longrightarrow>
        mstatus (completeAnalysis i (Inr (buildAnalysis p)) prev ! k) = Rejected)"
  by (simp add: completeAnalysis_def buildAnalysis_def)

theorem approved_iff_safe_witness:
  "mstatus (completeAnalysis (drop 7 rndA) (Inr (buildAnalysis bareVerdict))
              [newMedia photo rndA 0] ! 0) = Approved \<and>
   mstatus (completeAnalysis (drop 7 rndA) (Inr (buildAnalysis emptyVerdict))
              [newMedia photo rndA 0] ! 0) = Rejected \<and>
   mstatus (completeAnalysis (drop 7 rndA)
              (Inr (buildAnalysis (bareVerdict\<lparr> v_moderationStatus := Some (JStr ''Safe'') \<rparr>)))
              [newMedia photo rndA 0] ! 0) = Rejected"
proof -
  have k: "0 < length [newMedia photo rndA 0] \<and> mid ([newMedia photo rndA 0] ! 0) = drop 7 rndA"
    by (simp add: newMedia_def)
  have s: "v_moderationStatus bareVerdict = Some (JStr ''safe'') \<and>
      v_moderationStatus emptyVerdict \<noteq> Some (JStr ''safe'') \<and>
      v_moderationStatus (bareVerdict\<lparr> v_moderationStatus := Some (JStr ''Safe'') \<rparr>) \<noteq>
        Some (JStr ''safe'')"
    by (simp add: bareVerdict_def emptyVerdict_def)
  show ?thesis
    using k s
      approved_iff_safe [of "[newMedia photo rndA 0]" "drop 7 rndA" bareVerdict]
      approved_iff_safe [of "[newMedia photo rndA 0]" "drop 7 rndA" emptyVerdict]
      approved_iff_safe [of "[newMedia photo rndA 0]" "drop 7 rndA"
        "bareVerdict\<lparr> v_moderationStatus := Some (JStr ''Safe'') \<rparr>"]
    by blast
qed

subsection \<open>A response that is not a success\<close>

lemma analyze_reaches_response:
  assumes "(if startsWith (ftype f) ''video/'' then extractVideoFrame w f
            else fileToBase64 w f) = Inr d"
    and "VITE_ANTHROPIC_API_KEY e = Some k" and "k \<noteq> []"
    and "\<forall>req. fetch w req = Inr resp"
  shows "snd (analyzeMediaWithClaude e w f) = handleResponse w (configuredModel e) resp"
  using assms by (simp add: analyzeMediaWithClaude_def Let_def)

lemma showNat_404: "showNat 404 = ''404''"
  by (simp add: showNat.simps)

lemma sublist_404: "sublist (showNat 404) (notFoundMessage model body)"
proof -
  have "notFoundMessage model body =
      ''Moderation API error ('' @ ''404'' @ (''): model '' @ [CHR 0x22] @ model @ [CHR 0x22] @
      '' not found for this API key. '' @
      ''Double-check VITE_ANTHROPIC_MODEL against the /v1/models list. Raw: '' @ body)"
    by (simp add: notFoundMessage_def)
  with showNat_404 show ?thesis by (simp only: sublist_appendI)
qed

lemma sublist_model: "sublist model (notFoundMessage model body)"
proof -
  have "notFoundMessage model body =
      (''Moderation API error (404): model '' @ [CHR 0x22]) @ model @ ([CHR 0x22] @
      '' not found for this API key. '' @
      ''Double-check VITE_ANTHROPIC_MODEL against the /v1/models list. Raw: '' @ body)"
    by (simp add: notFoundMessage_def)
  then show ?thesis by (simp only: sublist_appendI)
qed

lemma sublist_status: "sublist (showNat st) (apiErrorMessage st body)"
  unfolding apiErrorMessage_def by (rule sublist_appendI)

lemma suffix_body:
  "suffix body (notFoundMessage model body)" "suffix body (apiErrorMessage st body)"
  by (simp_all add: notFoundMessage_def apiErrorMessage_def suffix_def)

text \<open>
  C9. When the file was encoded, the credential is set and the request is answered with a
  status outside 200-299 whose body can be read, the pipeline fails with an error whose
  message contains the decimal status code and ends with the raw body; for the status 404
  the message also contains the configured model identifier. The record of the call
  becomes an error record carrying that message.
\<close>

theorem http_failure_reported:
  assumes enc: "(if startsWith (ftype f) ''video/'' then extractVideoFrame w f
                 else fileToBase64 w f) = Inr d"
    and key: "VITE_ANTHROPIC_API_KEY e = Some k" "k \<noteq> []"
    and net: "\<forall>req. fetch w req = Inr resp"
    and bad: "\<not> ok resp"
    and body: "text_body resp = Inr body"
  shows "\<exists>msg. snd (analyzeMediaWithClaude e w f) = Inl (JsError msg) \<and>
           sublist (showNat (status resp)) msg \<and> suffix body msg \<and>
           (status resp = 404 \<longrightarrow> sublist (configuredModel e) msg) \<and>
           (\<forall>m. mid m = i \<longrightarrow>
              completeAnalysis i (snd (analyzeMediaWithClaude e w f)) [m] =
                [m\<lparr> mstatus := ErrorStatus, merror := Some msg \<rparr>])"
proof -
  let ?msg = "if status resp = 404 then notFoundMessage (configuredModel e) body
              else apiErrorMessage (status resp) body"
  have out: "snd (analyzeMediaWithClaude e w f) = Inl (JsError ?msg)"
    using bad body by (simp add: analyze_reaches_response [OF enc key net] handleResponse_def)
  have "sublist (showNat (status resp)) ?msg"
    using sublist_404 sublist_status by simp
  moreover have "suffix body ?msg"
    using suffix_body by simp
  moreover have "status resp = 404 \<longrightarrow> sublist (configuredModel e) ?msg"
    using sublist_model by simp
  moreover have "\<forall>m. mid m = i \<longrightarrow>
      completeAnalysis i (snd (analyzeMediaWithClaude e w f)) [m] =
        [m\<lparr> mstatus := ErrorStatus, merror := Some ?msg \<rparr>]"
    by (simp add: out completeAnalysis_def)
  ultimately show ?thesis using out by blast
qed

theorem http_failure_reported_witness:
  "\<exists>msg. snd (analyzeMediaWithClaude keyEnv offline photo) = Inl (JsError msg) \<and>
     sublist ''404'' msg \<and> sublist ''claude-x'' msg \<and> suffix ''no such model'' msg \<and>
     completeAnalysis (drop 7 rndA) (snd (analyzeMediaWithClaude keyEnv offline photo))
       [newMedia photo rndA 0] =
       [(newMedia photo rndA 0)\<lparr> mstatus := ErrorStatus, merror := Some msg \<rparr>]"
proof -
  have enc: "(if startsWith (ftype photo) ''video/'' then extractVideoFrame offline photo
              else fileToBase64 offline photo) = Inr ''aGFpcg==''"
    by (simp add: offline_def photo_def startsWith_def)
  have key: "VITE_ANTHROPIC_API_KEY keyEnv = Some ''sk-test''" "''sk-test'' \<noteq> []"
    by (simp_all add: keyEnv_def)
  have net: "\<forall>req. fetch offline req = Inr notFound"
    by (simp add: offline_def)
  have bad: "\<not> ok notFound"
    by (simp add: ok_def notFound_def)
  have body: "text_body notFound = Inr ''no such model''"
    by (simp add: notFound_def)
  have st: "status notFound = 404" "showNat (status notFound) = ''404''"
    by (simp_all add: notFound_def showNat_404)
  have model: "configuredModel keyEnv = ''claude-x''"
    by (simp add: configuredModel_def keyEnv_def)
  have i: "mid (newMedia photo rndA 0) = drop 7 rndA"
    by (simp add: newMedia_def)
  from http_failure_reported [OF enc key net bad body, of "drop 7 rndA"] st model i
  show ?thesis by auto
qed

subsection \<open>A missing credential\<close>

text \<open>
  C3, as the code has it. When \<^verbatim>\<open>VITE_ANTHROPIC_API_KEY\<close> is absent, the pipeline runs the
  encoding step (frame extraction for a video, base64 encoding for anything else) and
  nothing after it: no request is sent. If the encoding succeeded the pipeline fails with
  the configuration error, and if it failed, with the error of the encoding; in every
  case the record of the call becomes an error record carrying the message of that
  failure.
\<close>

theorem missing_key_fails_before_fetch:
  assumes "VITE_ANTHROPIC_API_KEY e = None"
  shows "fst (analyzeMediaWithClaude e w f) =
           [if startsWith (ftype f) ''video/'' then ExtractVideoFrame f else FileToBase64 f] \<and>
         (\<forall>d. (if startsWith (ftype f) ''video/'' then extractVideoFrame w f
                else fileToBase64 w f) = Inr d \<longrightarrow>
              snd (analyzeMediaWithClaude e w f) = Inl (JsError missingKeyMessage)) \<and>
         (\<forall>err. (if startsWith (ftype f) ''video/'' then extractVideoFrame w f
                  else fileToBase64 w f) = Inl err \<longrightarrow>
              snd (analyzeMediaWithClaude e w f) = Inl err) \<and>
         (\<exists>err. snd (analyzeMediaWithClaude e w f) = Inl err \<and>
            (\<forall>m. mid m = i \<longrightarrow>
               completeAnalysis i (snd (analyzeMediaWithClaude e w f)) [m] =
                 [m\<lparr> mstatus := ErrorStatus, merror := message err \<rparr>]))"
  using assms
  by (auto simp: analyzeMediaWithClaude_def Let_def completeAnalysis_def split: sum.splits)

theorem missing_key_fails_before_fetch_witness:
  "fst (analyzeMediaWithClaude noKeyEnv online clip) = [ExtractVideoFrame clip] \<and>
   snd (analyzeMediaWithClaude noKeyEnv online clip) = Inl (JsError missingKeyMessage) \<and>
   completeAnalysis (drop 7 rndB) (snd (analyzeMediaWithClaude noKeyEnv online clip))
     [newMedia clip rndB 0] =
     [(newMedia clip rndB 0)\<lparr> mstatus := ErrorStatus, merror := Some missingKeyMessage \<rparr>]"
proof -
  have key: "VITE_ANTHROPIC_API_KEY noKeyEnv = None"
    by (simp add: noKeyEnv_def)
  have v: "startsWith (ftype clip) ''video/''"
    by (simp add: clip_def startsWith_def)
  have enc: "(if startsWith (ftype clip) ''video/'' then extractVideoFrame online clip
              else fileToBase64 online clip) = Inr ''/9j/4AAQ''"
    by (simp add: v online_def)
  have i: "mid (newMedia clip rndB 0) = drop 7 rndB"
    by (simp add: newMedia_def)
  from missing_key_fails_before_fetch [OF key, of online clip "drop 7 rndB"] v enc i
  show ?thesis by auto
qed

text \<open>
  C3, as it is stated, fails: without the credential, \<open>photo\<close> is encoded before the
  configuration error is raised, and a video that cannot be decoded fails with the
  decoder's event, not with the configuration error.
\<close>

theorem missing_key_encodes_first:
  "VITE_ANTHROPIC_API_KEY noKeyEnv = None \<and>
   analyzeMediaWithClaude noKeyEnv offline photo =
     ([FileToBase64 photo], Inl (JsError missingKeyMessage)) \<and>
   fst (analyzeMediaWithClaude noKeyEnv offline photo) \<noteq> [] \<and>
   analyzeMediaWithClaude noKeyEnv offline clip = ([ExtractVideoFrame clip], Inl NotAnError)"
  by (simp add: analyzeMediaWithClaude_def noKeyEnv_def offline_def photo_def clip_def
      startsWith_def)

subsection \<open>Rounding to a double\<close>

text \<open>
  \<open>ilog2\<close> is the exponent; \<open>toDouble\<close> moves a rational by at most half a unit in the
  last place; a rational between 0 and 100 becomes a finite double no further than
  \<open>1 / 2 ^ 47\<close> from it.
\<close>

lemma ilog2_bounds:
  assumes "0 < x"
  shows "2 powi ilog2 x \<le> x \<and> x < 2 powi (ilog2 x + 1)"
proof (cases "1 \<le> x")
  case True
  define n where "n = \<lfloor>x\<rfloor>"
  have n: "1 \<le> n" using True by (simp add: n_def le_floor_iff)
  then have b: "1 \<le> bitlen n" by (simp add: bitlen_alt_def)
  from bitlen_bounds [of n] n
  have lo: "2 ^ nat (bitlen n - 1) \<le> n" and hi: "n < 2 ^ nat (bitlen n)" by simp_all
  have "(2::rat) ^ nat (bitlen n - 1) \<le> of_int n"
    using lo by (metis of_int_le_iff of_int_numeral of_int_power)
  also have "\<dots> \<le> x" unfolding n_def by linarith
  finally have 1: "(2::rat) powi (bitlen n - 1) \<le> x"
    using b by (simp add: power_int_def)
  have "n + 1 \<le> 2 ^ nat (bitlen n)" using hi by simp
  then have "of_int (n + 1) \<le> (2::rat) ^ nat (bitlen n)"
    by (metis of_int_le_iff of_int_numeral of_int_power)
  moreover have "x < of_int (n + 1)" unfolding n_def by linarith
  ultimately have 2: "x < (2::rat) powi (bitlen n)"
    using b by (simp add: power_int_def)
  from 1 2 True show ?thesis by (simp add: ilog2_def n_def)
next
  case False
  define c where "c = \<lceil>1 / x\<rceil>"
  have y: "1 < 1 / x" using False assms by simp
  then have c: "2 \<le> c" unfolding c_def by linarith
  define b where "b = bitlen (c - 1)"
  have b: "1 \<le> b" using c by (simp add: b_def bitlen_alt_def)
  from bitlen_bounds [of "c - 1"] c
  have lo: "2 ^ nat (b - 1) \<le> c - 1" and hi: "c - 1 < 2 ^ nat b" by (simp_all add: b_def)
  have "(2::rat) ^ nat (b - 1) \<le> of_int (c - 1)"
    using lo by (metis of_int_le_iff of_int_numeral of_int_power)
  also have "\<dots> < 1 / x" unfolding c_def by linarith
  finally have 1: "(2::rat) ^ nat (b - 1) < 1 / x" .
  have "c \<le> 2 ^ nat b" using hi by simp
  then have "of_int c \<le> (2::rat) ^ nat b"
    by (metis of_int_le_iff of_int_numeral of_int_power)
  moreover have "1 / x \<le> of_int c" unfolding c_def by linarith
  ultimately have 2: "1 / x \<le> (2::rat) ^ nat b" by (rule order_trans [rotated])
  have p: "(0::rat) < 2 ^ nat b" "(0::rat) < 2 ^ nat (b - 1)" by simp_all
  from 2 assms p have 3: "1 / 2 ^ nat b \<le> x"
    by (simp add: field_simps)
  from 1 assms p have 4: "x < 1 / 2 ^ nat (b - 1)"
    by (simp add: field_simps)
  have e1: "(2::rat) powi (- b) = 1 / 2 ^ nat b"
    using b by (simp add: power_int_def field_simps)
  have e2: "(2::rat) powi (- b + 1) = 1 / 2 ^ nat (b - 1)"
    using b by (auto simp: power_int_def field_simps nat_diff_distrib)
  from 3 4 e1 e2 False show ?thesis
    by (simp add: ilog2_def c_def [symmetric] b_def [symmetric])
qed

lemma roundHalfEven_error: "\<bar>of_int (roundHalfEven q) - q\<bar> \<le> 1 / 2"
proof -
  have "of_int \<lfloor>q\<rfloor> \<le> q" and "q < of_int \<lfloor>q\<rfloor> + 1" by linarith+
  then show ?thesis
    unfolding roundHalfEven_def Let_def by auto
qed

lemma toDouble_error:
  assumes "toDouble x = Finite y"
  shows "\<bar>y - x\<bar> \<le> 2 powi (max (ilog2 \<bar>x\<bar>) (- 1022) - 53)"
proof (cases "x = 0")
  case True
  with assms show ?thesis by (simp add: toDouble_def)
next
  case False
  define u :: rat where "u = 2 powi (max (ilog2 \<bar>x\<bar>) (- 1022) - 52)"
  define n where "n = roundHalfEven (\<bar>x\<bar> / u)"
  have u: "0 < u" by (simp add: u_def)
  have "toDouble x =
      (if of_int n * u \<ge> 2 powi 1024 then (if x > 0 then PosInfinity else NegInfinity)
       else Finite (if x > 0 then of_int n * u else - (of_int n * u)))"
    by (simp only: toDouble_def Let_def False if_False u_def n_def)
  with assms have y: "y = (if x > 0 then of_int n * u else - (of_int n * u))"
    by (auto split: if_splits)
  have r: "\<bar>of_int n - \<bar>x\<bar> / u\<bar> \<le> 1 / 2"
    unfolding n_def by (rule roundHalfEven_error)
  have "of_int n * u - \<bar>x\<bar> = (of_int n - \<bar>x\<bar> / u) * u"
    using u by (simp add: field_simps)
  then have "\<bar>of_int n * u - \<bar>x\<bar>\<bar> = \<bar>of_int n - \<bar>x\<bar> / u\<bar> * u"
    using u by (simp only: abs_mult abs_of_pos)
  also have "\<dots> \<le> 1 / 2 * u"
    using r u by (intro mult_right_mono) auto
  finally have "\<bar>of_int n * u - \<bar>x\<bar>\<bar> \<le> u / 2" by simp
  then have "\<bar>y - x\<bar> \<le> u / 2"
  proof (cases "0 < x")
    case True
    then show ?thesis using \<open>\<bar>of_int n * u - \<bar>x\<bar>\<bar> \<le> u / 2\<close> by (simp add: y)
  next
    case neg: False
    have "- (of_int n * u) - x = - (of_int n * u + x)" by simp
    then have "\<bar>- (of_int n * u) - x\<bar> = \<bar>of_int n * u + x\<bar>"
      by (simp only: abs_minus)
    moreover have "\<bar>x\<bar> = - x" using neg by simp
    ultimately show ?thesis
      using neg \<open>\<bar>of_int n * u - \<bar>x\<bar>\<bar> \<le> u / 2\<close> by (simp only: y if_False)
  qed
  moreover have "u / 2 = 2 powi (max (ilog2 \<bar>x\<bar>) (- 1022) - 53)"
    unfolding u_def by (simp add: power_int_diff)
  ultimately show ?thesis by simp
qed

lemma toDouble_small:
  assumes "0 \<le> x" and "x \<le> 100"
  shows "\<exists>y. toDouble x = Finite y \<and> \<bar>y - x\<bar> \<le> 1 / 2 ^ 47"
proof (cases "x = 0")
  case True
  then show ?thesis by (simp add: toDouble_def)
next
  case False
  with assms have pos: "0 < x" by simp
  define e where "e = max (ilog2 \<bar>x\<bar>) (- 1022)"
  define u :: rat where "u = 2 powi (e - 52)"
  define n where "n = roundHalfEven (\<bar>x\<bar> / u)"
  have u: "0 < u" by (simp add: u_def)
  have "(2::rat) powi ilog2 x \<le> x" using ilog2_bounds [OF pos] by simp
  also have "x < 2 powi 7" using assms by simp
  finally have "ilog2 x < 7"
    by (rule power_int_le_imp_less_exp [rotated]) simp_all
  then have e: "e \<le> 6" using pos by (simp add: e_def)
  then have "u \<le> 2 powi (- 46)"
    unfolding u_def by (intro power_int_increasing) simp_all
  then have u46: "u \<le> 1 / 2 ^ 46" by (simp add: power_int_minus field_simps)
  have r: "\<bar>of_int n - \<bar>x\<bar> / u\<bar> \<le> 1 / 2"
    unfolding n_def by (rule roundHalfEven_error)
  have "of_int n * u - \<bar>x\<bar> = (of_int n - \<bar>x\<bar> / u) * u"
    using u by (simp add: field_simps)
  then have "\<bar>of_int n * u - \<bar>x\<bar>\<bar> = \<bar>of_int n - \<bar>x\<bar> / u\<bar> * u"
    using u by (simp only: abs_mult abs_of_pos)
  also have "\<dots> \<le> 1 / 2 * u"
    using r u by (intro mult_right_mono) auto
  finally have d: "\<bar>of_int n * u - x\<bar> \<le> u / 2" using pos by simp
  have "u \<le> 1" using u46 by (rule order_trans) simp
  with d assms have "of_int n * u < 101" by linarith
  then have small: "\<not> of_int n * u \<ge> 2 powi 1024" by simp
  have "toDouble x =
      (if of_int n * u \<ge> 2 powi 1024 then (if x > 0 then PosInfinity else NegInfinity)
       else Finite (if x > 0 then of_int n * u else - (of_int n * u)))"
    by (simp only: toDouble_def Let_def False if_False e_def u_def n_def)
  with small pos have "toDouble x = Finite (of_int n * u)" by (simp only: if_False if_True)
  moreover have "u / 2 \<le> 1 / 2 ^ 47" using u46 by simp
  with d have "\<bar>of_int n * u - x\<bar> \<le> 1 / 2 ^ 47" by (rule order_trans)
  ultimately show ?thesis by blast
qed

subsection \<open>The confidence percentage\<close>

lemma showNat_87: "showNat 87 = ''87''"
  by (simp add: showNat.simps)

lemma showNat_5: "showNat 5 = ''5''"
  by (simp add: showNat.simps)

lemma product_0_873:
  "numTimes (toDouble (873 / 1000)) (Finite 100) = Finite (6143191366710067 / 2 ^ 46)"
  by code_simp

lemma round_0_873: "Math_round (Finite (6143191366710067 / 2 ^ 46)) = Finite 87"
  by (simp add: floor_eq_iff)

lemma double_0_045: "toDouble (45 / 1000) = Finite (3242591731706757 / 2 ^ 56)"
  by code_simp

lemma product_0_045: "numTimes (Finite (3242591731706757 / 2 ^ 56)) (Finite 100) = Finite (9 / 2)"
  by code_simp

lemma round_9_2: "Math_round (Finite (9 / 2)) = Finite 5"
  by (simp add: floor_eq_iff)

lemma percentText_int:
  "\<bar>k\<bar> \<le> 2 ^ 53 \<Longrightarrow> percentText (Finite (of_int k)) = Some (showInt k @ ''%'')"
proof -
  assume "\<bar>k\<bar> \<le> 2 ^ 53"
  then have "\<bar>(of_int k :: rat)\<bar> \<le> 2 ^ 53"
    by (metis of_int_abs of_int_le_numeral_power_cancel_iff)
  then show ?thesis by (simp add: percentText_def)
qed

text \<open>
  C10, as the code has it. For an approved record with an analysis, the panel shows the
  Number \<^verbatim>\<open>Math.round(confidence * 100)\<close>, where the product is the double-precision one:
  for a finite confidence it is the double nearest to the exact product. When that
  product \<open>y\<close> is finite, the Number shown is the integer \<open>k\<close> nearest to \<open>y\<close>, a tie
  going up, and for \<open>k\<close> up to \<open>2 ^ 53\<close> in magnitude its text is the decimal digits of
  \<open>k\<close> followed by a percent sign. For a confidence between 0 and 1 the integer shown is
  within \<open>1 / 2 + 1 / 2 ^ 47\<close> of the exact product. A confidence of 0.873 is shown as
  \<^verbatim>\<open>87%\<close>.
\<close>

theorem confidence_percentage:
  assumes "mstatus m = Approved" and "analysis m = Some a"
  shows "(\<exists>c t rows. AIAnalysisPanel m =
            ApprovedPanel c t (Math_round (numTimes (confidence a) (Finite 100))) rows) \<and>
         (\<forall>v. confidence a = Finite v \<longrightarrow>
            numTimes (confidence a) (Finite 100) = toDouble (v * 100)) \<and>
         (\<forall>y. numTimes (confidence a) (Finite 100) = Finite y \<longrightarrow>
            (\<exists>k. Math_round (numTimes (confidence a) (Finite 100)) = Finite (of_int k) \<and>
                 y - 1 / 2 < of_int k \<and> of_int k \<le> y + 1 / 2 \<and>
                 (\<bar>k\<bar> \<le> 2 ^ 53 \<longrightarrow>
                    percentText (Math_round (numTimes (confidence a) (Finite 100))) =
                      Some (showInt k @ ''%'')))) \<and>
         (\<forall>v. confidence a = Finite v \<and> 0 \<le> v \<and> v \<le> 1 \<longrightarrow>
            (\<exists>k. Math_round (numTimes (confidence a) (Finite 100)) = Finite (of_int k) \<and>
                 \<bar>of_int k - v * 100\<bar> \<le> 1 / 2 + 1 / 2 ^ 47)) \<and>
         (confidence a = toDouble (873 / 1000) \<longrightarrow>
            percentText (Math_round (numTimes (confidence a) (Finite 100))) = Some ''87%'')"
proof (intro conjI allI impI)
  show "\<exists>c t rows. AIAnalysisPanel m =
          ApprovedPanel c t (Math_round (numTimes (confidence a) (Finite 100))) rows"
    using assms by (simp add: AIAnalysisPanel_def Let_def confidencePct_def)
next
  fix v
  assume "confidence a = Finite v"
  then show "numTimes (confidence a) (Finite 100) = toDouble (v * 100)" by simp
next
  fix y
  assume y: "numTimes (confidence a) (Finite 100) = Finite y"
  have "y - 1 / 2 < of_int \<lfloor>y + 1 / 2\<rfloor>" and "of_int \<lfloor>y + 1 / 2\<rfloor> \<le> y + 1 / 2"
    by linarith+
  moreover have "\<bar>\<lfloor>y + 1 / 2\<rfloor>\<bar> \<le> 2 ^ 53 \<longrightarrow>
      percentText (Math_round (numTimes (confidence a) (Finite 100))) =
        Some (showInt \<lfloor>y + 1 / 2\<rfloor> @ ''%'')"
    by (simp add: y percentText_int)
  moreover have "Math_round (numTimes (confidence a) (Finite 100)) =
      Finite (of_int \<lfloor>y + 1 / 2\<rfloor>)"
    by (simp add: y)
  ultimately show "\<exists>k. Math_round (numTimes (confidence a) (Finite 100)) = Finite (of_int k) \<and>
      y - 1 / 2 < of_int k \<and> of_int k \<le> y + 1 / 2 \<and>
      (\<bar>k\<bar> \<le> 2 ^ 53 \<longrightarrow>
         percentText (Math_round (numTimes (confidence a) (Finite 100))) =
           Some (showInt k @ ''%''))"
    by blast
next
  fix v
  assume v: "confidence a = Finite v \<and> 0 \<le> v \<and> v \<le> 1"
  then have "0 \<le> v * 100" and "v * 100 \<le> 100" by simp_all
  then obtain y where y: "toDouble (v * 100) = Finite y" and d: "\<bar>y - v * 100\<bar> \<le> 1 / 2 ^ 47"
    using toDouble_small by blast
  have "\<bar>of_int \<lfloor>y + 1 / 2\<rfloor> - y\<bar> \<le> 1 / 2" by linarith
  with d have "\<bar>of_int \<lfloor>y + 1 / 2\<rfloor> - v * 100\<bar> \<le> 1 / 2 + 1 / 2 ^ 47" by linarith
  moreover have "Math_round (numTimes (confidence a) (Finite 100)) =
      Finite (of_int \<lfloor>y + 1 / 2\<rfloor>)"
    using v y by simp
  ultimately show "\<exists>k. Math_round (numTimes (confidence a) (Finite 100)) =
      Finite (of_int k) \<and> \<bar>of_int k - v * 100\<bar> \<le> 1 / 2 + 1 / 2 ^ 47"
    by blast
next
  assume "confidence a = toDouble (873 / 1000)"
  then have "Math_round (numTimes (confidence a) (Finite 100)) = Finite 87"
    by (simp only: product_0_873 round_0_873)
  moreover have "percentText (Finite 87) = Some ''87%''"
    using percentText_int [of 87] by (simp add: showInt_def showNat_87)
  ultimately show "percentText (Math_round (numTimes (confidence a) (Finite 100))) =
      Some ''87%''"
    by (simp only:)
qed

theorem confidence_percentage_witness:
  "AIAnalysisPanel approvedRecord =
     ApprovedPanel (Some ''Hair Colouring'') [''balayage'', ''blonde''] (Finite 87)
       (map (\<lambda>(key, label). (key, label, Clear)) FLAG_LABELS) \<and>
   percentText (Finite 87) = Some ''87%''"
proof -
  have st: "mstatus approvedRecord = Approved"
    and an: "analysis approvedRecord = Some (buildAnalysis fullVerdict)"
    by (simp_all add: approvedRecord_def)
  have c: "confidence (buildAnalysis fullVerdict) = toDouble (873 / 1000)"
    by (simp add: buildAnalysis_def fullVerdict_def)
  have r: "Math_round (numTimes (confidence (buildAnalysis fullVerdict)) (Finite 100)) =
      Finite 87"
    by (simp only: c product_0_873 round_0_873)
  have "percentText (Math_round (numTimes (confidence (buildAnalysis fullVerdict))
      (Finite 100))) = Some ''87%''"
    using confidence_percentage [OF st an] c by blast
  then have p: "percentText (Finite 87) = Some ''87%''"
    by (simp only: r)
  have "AIAnalysisPanel approvedRecord =
     ApprovedPanel (Some ''Hair Colouring'') [''balayage'', ''blonde''] (Finite 87)
       (map (\<lambda>(key, label). (key, label, Clear)) FLAG_LABELS)"
    by (simp add: AIAnalysisPanel_def Let_def st an confidencePct_def r)
       (simp add: buildAnalysis_def fullVerdict_def FLAG_LABELS_def flagOf_def noFlags_def)
  with p show ?thesis by simp
qed

text \<open>
  C10, as it is stated, fails. The record approved with \<^verbatim>\<open>"confidence": 0.045\<close> stores the
  double nearest to 0.045, which is a little below it; a hundred times that value is
  below 4.5, so its nearest integer is 4; the double product is 4.5, and the panel shows
  \<^verbatim>\<open>5%\<close>.
\<close>

theorem percentage_not_nearest_to_exact_product:
  "mstatus lowRecord = Approved \<and>
   analysis lowRecord = Some (buildAnalysis lowVerdict) \<and>
   confidence (buildAnalysis lowVerdict) = Finite (3242591731706757 / 2 ^ 56) \<and>
   AIAnalysisPanel lowRecord =
     ApprovedPanel (Some ''Hair Colouring'') [''balayage'', ''blonde''] (Finite 5)
       (map (\<lambda>(key, label). (key, label, Clear)) FLAG_LABELS) \<and>
   percentText (Finite 5) = Some ''5%'' \<and>
   \<bar>4 - 3242591731706757 / 2 ^ 56 * 100\<bar> < (1 / 2 :: rat) \<and>
   \<not> \<bar>5 - 3242591731706757 / 2 ^ 56 * 100\<bar> \<le> (1 / 2 :: rat)"
proof -
  have st: "mstatus lowRecord = Approved"
    and an: "analysis lowRecord = Some (buildAnalysis lowVerdict)"
    by (simp_all add: lowRecord_def)
  have "confidence (buildAnalysis lowVerdict) = toDouble (45 / 1000)"
    by (simp add: buildAnalysis_def lowVerdict_def fullVerdict_def)
  then have c: "confidence (buildAnalysis lowVerdict) = Finite (3242591731706757 / 2 ^ 56)"
    by (simp only: double_0_045)
  have r: "Math_round (numTimes (confidence (buildAnalysis lowVerdict)) (Finite 100)) = Finite 5"
    by (simp only: c product_0_045 round_9_2)
  have p: "AIAnalysisPanel lowRecord =
     ApprovedPanel (Some ''Hair Colouring'') [''balayage'', ''blonde''] (Finite 5)
       (map (\<lambda>(key, label). (key, label, Clear)) FLAG_LABELS)"
    by (simp add: AIAnalysisPanel_def Let_def st an confidencePct_def r)
       (simp add: buildAnalysis_def lowVerdict_def fullVerdict_def FLAG_LABELS_def flagOf_def
          noFlags_def)
  have t: "percentText (Finite 5) = Some ''5%''"
    using percentText_int [of 5] by (simp add: showInt_def showNat_5)
  have "\<bar>4 - 3242591731706757 / 2 ^ 56 * 100\<bar> < (1 / 2 :: rat)"
    and "\<not> \<bar>5 - 3242591731706757 / 2 ^ 56 * 100\<bar> \<le> (1 / 2 :: rat)"
    by simp_all
  with st an c p t show ?thesis by blast
qed

subsection \<open>The rejected panel\<close>

lemma rejected_rows:
  assumes "mstatus m = Rejected" and "analysis m = Some a"
  shows "panelRows (AIAnalysisPanel m) =
           map (\<lambda>(key, label). (key, label, Flagged))
             (filter (\<lambda>(key, label). flagOf (flaggedCats a) key) FLAG_LABELS)"
  using assms by (simp add: AIAnalysisPanel_def Let_def panelRows_def)

lemma map_of_flagged:
  "map_of (map (\<lambda>(k, label, mk). (k, mk))
     (map (\<lambda>(key, label). (key, label, Flagged)) (filter (\<lambda>(key, label). P key) xs))) key =
   (if P key \<and> key \<in> fst ` set xs then Some Flagged else None)"
  by (induction xs) (auto simp: image_iff)

lemma length_triggered:
  "length (filter (\<lambda>(key, label). P key) xs) = length (filter P (map fst xs))"
  by (induction xs) auto

text \<open>
  C1, as the code has it. For a rejected record with an analysis in which exactly two of
  the six flags are true, the rejected panel shows exactly two rows; each of the six keys
  has the marker Flagged when its flag is true and no row at all when it is not; and no
  row of the panel carries the marker Clear.
\<close>

theorem rejected_panel_lists_flagged_only:
  assumes "mstatus m = Rejected" and "analysis m = Some a"
    and "length (filter (flagOf (flaggedCats a)) (map fst FLAG_LABELS)) = 2"
  shows "length (panelRows (AIAnalysisPanel m)) = 2 \<and>
         (\<forall>key \<in> set (map fst FLAG_LABELS).
            markerOf (AIAnalysisPanel m) key =
              (if flagOf (flaggedCats a) key then Some Flagged else None)) \<and>
         (\<forall>row \<in> set (panelRows (AIAnalysisPanel m)). snd (snd row) = Flagged)"
proof (intro conjI ballI)
  show "length (panelRows (AIAnalysisPanel m)) = 2"
    using assms(3) by (simp add: rejected_rows [OF assms(1,2)] length_triggered)
next
  fix key
  assume "key \<in> set (map fst FLAG_LABELS)"
  then have "key \<in> fst ` set FLAG_LABELS" by simp
  then show "markerOf (AIAnalysisPanel m) key =
      (if flagOf (flaggedCats a) key then Some Flagged else None)"
    by (simp only: markerOf_def rejected_rows [OF assms(1,2)] map_of_flagged) simp
next
  fix row
  assume "row \<in> set (panelRows (AIAnalysisPanel m))"
  then show "snd (snd row) = Flagged"
    by (auto simp: rejected_rows [OF assms(1,2)])
qed

lemma unsafe_flags:
  "flaggedCats (buildAnalysis unsafeVerdict) = noFlags\<lparr> nudity := True, contactInfo := True \<rparr>"
  by (simp add: buildAnalysis_def unsafeVerdict_def)

lemma unsafe_two_flags:
  "length (filter (flagOf (flaggedCats (buildAnalysis unsafeVerdict))) (map fst FLAG_LABELS)) = 2"
  by (simp add: unsafe_flags FLAG_LABELS_def flagOf_def noFlags_def)

theorem rejected_panel_lists_flagged_only_witness:
  "length (panelRows (AIAnalysisPanel rejectedRecord)) = 2 \<and>
   markerOf (AIAnalysisPanel rejectedRecord) ''nudity'' = Some Flagged \<and>
   markerOf (AIAnalysisPanel rejectedRecord) ''contactInfo'' = Some Flagged \<and>
   markerOf (AIAnalysisPanel rejectedRecord) ''profanity'' = None"
proof -
  have st: "mstatus rejectedRecord = Rejected"
    and an: "analysis rejectedRecord = Some (buildAnalysis unsafeVerdict)"
    by (simp_all add: rejectedRecord_def)
  have keys: "''nudity'' \<in> set (map fst FLAG_LABELS)"
    "''contactInfo'' \<in> set (map fst FLAG_LABELS)"
    "''profanity'' \<in> set (map fst FLAG_LABELS)"
    by (simp_all add: FLAG_LABELS_def)
  have flags: "flagOf (flaggedCats (buildAnalysis unsafeVerdict)) ''nudity''"
    "flagOf (flaggedCats (buildAnalysis unsafeVerdict)) ''contactInfo''"
    "\<not> flagOf (flaggedCats (buildAnalysis unsafeVerdict)) ''profanity''"
    by (simp_all add: unsafe_flags flagOf_def noFlags_def)
  from rejected_panel_lists_flagged_only [OF st an unsafe_two_flags] keys flags
  show ?thesis by auto
qed

text \<open>
  C1, as it is stated, fails: for the record rejected with the flags \<^verbatim>\<open>nudity\<close> and
  \<^verbatim>\<open>contactInfo\<close>, the flag \<^verbatim>\<open>violence\<close> is false and the panel shows no Clear marker for
  it; its only rows are the two flagged ones.
\<close>

theorem rejected_panel_has_no_clear_rows:
  "mstatus rejectedRecord = Rejected \<and>
   analysis rejectedRecord = Some (buildAnalysis unsafeVerdict) \<and>
   length (filter (flagOf (flaggedCats (buildAnalysis unsafeVerdict))) (map fst FLAG_LABELS)) = 2 \<and>
   \<not> flagOf (flaggedCats (buildAnalysis unsafeVerdict)) ''violence'' \<and>
   markerOf (AIAnalysisPanel rejectedRecord) ''violence'' \<noteq> Some Clear \<and>
   AIAnalysisPanel rejectedRecord =
     RejectedPanel (Some [''Shows a phone number''])
       (Some [(''nudity'', ''Nudity / Sexual content'', Flagged),
              (''contactInfo'', ''Contact information'', Flagged)])"
proof -
  have p: "AIAnalysisPanel rejectedRecord =
     RejectedPanel (Some [''Shows a phone number''])
       (Some [(''nudity'', ''Nudity / Sexual content'', Flagged),
              (''contactInfo'', ''Contact information'', Flagged)])"
    by (simp add: AIAnalysisPanel_def rejectedRecord_def unsafe_flags Let_def FLAG_LABELS_def
        flagOf_def noFlags_def)
       (simp add: buildAnalysis_def unsafeVerdict_def)
  have "markerOf (AIAnalysisPanel rejectedRecord) ''violence'' \<noteq> Some Clear"
    by (simp add: p markerOf_def panelRows_def)
  moreover have "\<not> flagOf (flaggedCats (buildAnalysis unsafeVerdict)) ''violence''"
    by (simp add: unsafe_flags flagOf_def noFlags_def)
  ultimately show ?thesis
    using p unsafe_two_flags by (simp add: rejectedRecord_def)
qed

subsection \<open>Preview URLs\<close>

text \<open>Closing the success dialog drops every record and revokes nothing.\<close>

lemma success_close_revokes_nothing:
  "media (handleSuccessClose s) = [] \<and> revoked (handleSuccessClose s) = revoked s \<and>
   created (handleSuccessClose s) = created s"
  by (simp add: handleSuccessClose_def)

text \<open>
  C2 fails on the path through \<^verbatim>\<open>handleSuccessClose\<close>. In the session \<open>publishedRun\<close> one
  object URL is created for \<open>photo\<close>; after the success dialog is closed the record is
  gone and the modal is closed, and \<^verbatim>\<open>URL.revokeObjectURL\<close> has never been called.
\<close>

theorem success_close_leaks_preview_url:
  "media publishedRun = [] \<and> \<not> isOpen publishedRun \<and>
   created publishedRun = [0] \<and> revoked publishedRun = []"
  by (simp add: publishedRun_def run_def handleFileSelect_def photo_def startsWith_def
      initial_def createObjectURL_def newMedia_def rndA_def completeAnalysis_def
      buildAnalysis_def fullVerdict_def handlePublish_def handlePublishDone_def
      handleSuccessClose_def)

end
